theory Spec2Isabelle
  imports Main "HOL-Library.Sublist" "HOL-Library.Code_Target_Nat"
begin

section \<open>Python strings, values and exceptions\<close>

text \<open>
  A Python \<^verbatim>\<open>str\<close> is a sequence of Unicode code points, and \<^verbatim>\<open>len\<close>, \<^verbatim>\<open>in\<close>,
  slicing and the regular expressions of the source work on code points. A code point is a
  natural number (below \<^verbatim>\<open>0x110000\<close>). The string literals of the source are ASCII;
  \<open>lit\<close> gives the code points of one.
\<close>

type_synonym codepoint = nat

type_synonym str = "codepoint list"

definition lit :: "string \<Rightarrow> str" where
  "lit s = map of_char s"

text \<open>
  Two services of the interpreter's Unicode database are used by the source and are not
  part of it: the case folding of \<^verbatim>\<open>str.lower()\<close>, and the white-space test behind
  \<^verbatim>\<open>str.strip()\<close> and \<^verbatim>\<open>str.split()\<close>. They are parameters of the model, and every
  general property below holds whatever they are.
\<close>

record unicode =
  lower :: "str \<Rightarrow> str"
  is_space :: "codepoint \<Rightarrow> bool"

text \<open>
  The service of \<^verbatim>\<open>src/services/youtube_service.py\<close> works on decoded JSON: the value
  returned by the API client's \<^verbatim>\<open>execute()\<close> and the value returned by
  \<^verbatim>\<open>json.loads\<close>. Such a value is \<^verbatim>\<open>None\<close>, a boolean, a number, a string, a list or
  a dictionary with string keys. The code only ever observes of a number whether it is zero,
  so numbers are integers here. A dictionary is an association list read with \<open>map_of\<close>.
\<close>

datatype pyval =
    VNone
  | VBool bool
  | VNum int
  | VStr str
  | VList "pyval list"
  | VDict "(str \<times> pyval) list"

text \<open>The exceptions the code can meet. All of them are subclasses of Python's
  \<^verbatim>\<open>Exception\<close>; \<open>HttpError\<close> carries \<^verbatim>\<open>e.resp.status\<close>.\<close>

datatype exn =
    HttpError int
  | Timeout
  | TypeError
  | AttributeError
  | KeyError
  | IndexError
  | ValueError
  | OtherException

text \<open>A computation that may raise: \<open>Inl e\<close> is the raised exception.\<close>

definition and_then :: "exn + 'a \<Rightarrow> ('a \<Rightarrow> exn + 'b) \<Rightarrow> exn + 'b" where
  "and_then m f = (case m of Inl e \<Rightarrow> Inl e | Inr x \<Rightarrow> f x)"

subsection \<open>Strings\<close>

text \<open>\<^verbatim>\<open>s.strip()\<close>.\<close>

definition strip :: "unicode \<Rightarrow> str \<Rightarrow> str" where
  "strip ucd s = rev (dropWhile (is_space ucd) (rev (dropWhile (is_space ucd) s)))"

text \<open>\<^verbatim>\<open>s.split()\<close>: the maximal runs of non-space characters; \<open>cur\<close> is the word being read.\<close>

fun split_from :: "unicode \<Rightarrow> str \<Rightarrow> str \<Rightarrow> str list" where
  "split_from ucd cur [] = (if cur = [] then [] else [cur])"
| "split_from ucd cur (c # cs) =
     (if is_space ucd c then (if cur = [] then split_from ucd [] cs else cur # split_from ucd [] cs)
      else split_from ucd (cur @ [c]) cs)"

definition split :: "unicode \<Rightarrow> str \<Rightarrow> str list" where
  "split ucd s = split_from ucd [] s"

text \<open>\<^verbatim>\<open>sub in s\<close> on strings.\<close>

fun str_in :: "str \<Rightarrow> str \<Rightarrow> bool" where
  "str_in sub [] = (sub = [])"
| "str_in sub (c # cs) = (prefix sub (c # cs) \<or> str_in sub cs)"

text \<open>\<^verbatim>\<open>sep.join(xs)\<close>.\<close>

fun join :: "str \<Rightarrow> str list \<Rightarrow> str" where
  "join sep [] = []"
| "join sep [x] = x"
| "join sep (x # y # ys) = x @ sep @ join sep (y # ys)"

subsection \<open>Operations on values\<close>

text \<open>Truthiness, as \<^verbatim>\<open>if v:\<close> and \<^verbatim>\<open>not v\<close> see it.\<close>

fun truthy :: "pyval \<Rightarrow> bool" where
  "truthy VNone = False"
| "truthy (VBool b) = b"
| "truthy (VNum n) = (n \<noteq> 0)"
| "truthy (VStr s) = (s \<noteq> [])"
| "truthy (VList xs) = (xs \<noteq> [])"
| "truthy (VDict kvs) = (kvs \<noteq> [])"

text \<open>\<^verbatim>\<open>len(v)\<close>.\<close>

fun py_len :: "pyval \<Rightarrow> exn + nat" where
  "py_len (VStr s) = Inr (length s)"
| "py_len (VList xs) = Inr (length xs)"
| "py_len (VDict kvs) = Inr (length kvs)"
| "py_len _ = Inl TypeError"

text \<open>\<^verbatim>\<open>k in v\<close> for a string \<open>k\<close>.\<close>

fun py_in :: "str \<Rightarrow> pyval \<Rightarrow> exn + bool" where
  "py_in k (VDict kvs) = Inr (k \<in> set (map fst kvs))"
| "py_in k (VList xs) = Inr (VStr k \<in> set xs)"
| "py_in k (VStr s) = Inr (str_in k s)"
| "py_in k _ = Inl TypeError"

text \<open>\<^verbatim>\<open>v[k]\<close> for a string \<open>k\<close>.\<close>

fun py_getitem :: "pyval \<Rightarrow> str \<Rightarrow> exn + pyval" where
  "py_getitem (VDict kvs) k = (case map_of kvs k of Some x \<Rightarrow> Inr x | None \<Rightarrow> Inl KeyError)"
| "py_getitem _ k = Inl TypeError"

text \<open>\<^verbatim>\<open>v[0]\<close>.\<close>

fun py_first :: "pyval \<Rightarrow> exn + pyval" where
  "py_first (VList xs) = (case xs of [] \<Rightarrow> Inl IndexError | x # _ \<Rightarrow> Inr x)"
| "py_first (VStr s) = (case s of [] \<Rightarrow> Inl IndexError | c # _ \<Rightarrow> Inr (VStr [c]))"
| "py_first (VDict kvs) = Inl KeyError"
| "py_first _ = Inl TypeError"

text \<open>\<^verbatim>\<open>v.get(k, d)\<close>: only a dictionary has the method.\<close>

fun py_get :: "pyval \<Rightarrow> str \<Rightarrow> pyval \<Rightarrow> exn + pyval" where
  "py_get (VDict kvs) k d = (case map_of kvs k of Some x \<Rightarrow> Inr x | None \<Rightarrow> Inr d)"
| "py_get _ k d = Inl AttributeError"

text \<open>\<^verbatim>\<open>v.lower()\<close>: only a string has the method.\<close>

fun py_lower :: "unicode \<Rightarrow> pyval \<Rightarrow> exn + str" where
  "py_lower ucd (VStr s) = Inr (lower ucd s)"
| "py_lower ucd _ = Inl AttributeError"

text \<open>\<^verbatim>\<open>for x in v\<close>: the elements of a list, the keys of a dictionary, the characters of
  a string.\<close>

fun py_iter :: "pyval \<Rightarrow> exn + pyval list" where
  "py_iter (VList xs) = Inr xs"
| "py_iter (VDict kvs) = Inr (map (\<lambda>kv. VStr (fst kv)) kvs)"
| "py_iter (VStr s) = Inr (map (\<lambda>c. VStr [c]) s)"
| "py_iter _ = Inl TypeError"

section \<open>Video ID validation\<close>

definition id_chars :: str where
  "id_chars = lit ''abcdefghijklmnopqrstuvwxyzABCDEFGHIJKLMNOPQRSTUVWXYZ0123456789_-''"

definition is_id_char :: "codepoint \<Rightarrow> bool" where
  "is_id_char c = (c \<in> set id_chars)"

text \<open>\<^verbatim>\<open>re.match(r'^[a-zA-Z0-9_-]{11}$', s)\<close>: eleven characters of the class, then the end
  of the string; \<^verbatim>\<open>$\<close> also matches just before a final newline.\<close>

definition re_match_id :: "str \<Rightarrow> bool" where
  "re_match_id s =
     (length s \<ge> 11 \<and> list_all is_id_char (take 11 s) \<and>
      (drop 11 s = [] \<or> drop 11 s = [0x0A]))"

definition invalid_patterns :: "str list" where
  "invalid_patterns = [lit ''AAAAAAAAAAA'', lit ''undefined'', lit ''null'', lit ''true'', lit ''false'']"

text \<open>\<^verbatim>\<open>_is_valid_video_id\<close> on a string.\<close>

definition is_valid_video_id :: "str \<Rightarrow> bool" where
  "is_valid_video_id video_id =
     (if video_id = [] \<or> length video_id \<noteq> 11 then False
      else if \<not> re_match_id video_id then False
      else if video_id \<in> set invalid_patterns then False
      else True)"

text \<open>\<^verbatim>\<open>_is_valid_video_id\<close> on whatever value the JSON holds: a falsy value is rejected,
  \<^verbatim>\<open>len\<close> raises on a number or boolean, \<^verbatim>\<open>re.match\<close> raises on a list or dictionary of
  length 11.\<close>

definition valid_video_id :: "pyval \<Rightarrow> exn + bool" where
  "valid_video_id v =
     (if \<not> truthy v then Inr False
      else and_then (py_len v) (\<lambda>n.
        if n \<noteq> 11 then Inr False
        else (case v of VStr s \<Rightarrow> Inr (is_valid_video_id s) | _ \<Rightarrow> Inl TypeError)))"

section \<open>The API strategy\<close>

text \<open>What the service asks of the outside world is logged in the order it is asked.\<close>

datatype request = ApiCall str | HttpGet str

text \<open>The API client: the outcome of \<^verbatim>\<open>search().list(q=...).execute()\<close> for a query. The
  four queries of one call are pairwise distinct (\<open>api_queries_distinct\<close> below), so a
  function of the query describes whatever a client answers in the course of a call.\<close>

type_synonym api_client = "str \<Rightarrow> exn + pyval"

text \<open>\<^verbatim>\<open>" ".join(artists[:2]) if artists else ""\<close>\<close>

definition artist_string :: "str list \<Rightarrow> str" where
  "artist_string artists = (if artists \<noteq> [] then join (lit '' '') (take 2 artists) else [])"

definition api_queries :: "str \<Rightarrow> str \<Rightarrow> str list" where
  "api_queries song_title artist_str =
     [song_title @ (lit '' '') @ artist_str @ (lit '' official audio''),
      song_title @ (lit '' '') @ artist_str @ (lit '' official''),
      song_title @ (lit '' '') @ artist_str,
      song_title @ (lit '' '') @ artist_str @ (lit '' music'')]"

text \<open>The non-music filter on the (lower-cased) title.\<close>

definition filtered_title :: "str \<Rightarrow> bool" where
  "filtered_title title_lower =
     list_ex (\<lambda>keyword. str_in keyword title_lower)
       [lit ''#shorts'', lit ''playlist'', lit ''mix'', lit ''compilation'']"

definition title_match :: "unicode \<Rightarrow> str \<Rightarrow> str \<Rightarrow> bool" where
  "title_match ucd song_title title =
     (let song_title_lower = lower ucd song_title in
      str_in song_title_lower title \<or>
      list_ex (\<lambda>word. str_in word title)
        (filter (\<lambda>word. length word > 3) (split ucd song_title_lower)))"

definition artist_match :: "unicode \<Rightarrow> str \<Rightarrow> str list \<Rightarrow> str \<Rightarrow> str \<Rightarrow> bool" where
  "artist_match ucd artist_str artists title description =
     (artist_str = [] \<or>
      list_ex (\<lambda>artist. str_in (lower ucd artist) title \<or> str_in (lower ucd artist) description)
        (take 2 artists))"

definition is_official :: "str \<Rightarrow> bool" where
  "is_official title =
     (str_in (lit ''official'') title \<or> str_in (lit ''official audio'') title \<or>
      str_in (lit ''official video'') title)"

text \<open>The three reads at the head of the loop body: the ID, the lower-cased title and the
  lower-cased description of a result item.\<close>

definition item_fields :: "unicode \<Rightarrow> pyval \<Rightarrow> exn + (pyval \<times> str \<times> str)" where
  "item_fields ucd item =
     and_then (py_getitem item (lit ''id'')) (\<lambda>idv.
     and_then (py_getitem idv (lit ''videoId'')) (\<lambda>video_id.
     and_then (py_get item (lit ''snippet'') (VDict [])) (\<lambda>snippet.
     and_then (py_get snippet (lit ''title'') (VStr [])) (\<lambda>t.
     and_then (py_lower ucd t) (\<lambda>title.
     and_then (py_get snippet (lit ''description'') (VStr [])) (\<lambda>d.
     and_then (py_lower ucd d) (\<lambda>description.
     Inr (video_id, title, description))))))))"

text \<open>Rules (a) and (b) on a candidate that passed the two filters.\<close>

definition selected :: "unicode \<Rightarrow> str \<Rightarrow> str \<Rightarrow> str list \<Rightarrow> str \<Rightarrow> str \<Rightarrow> bool" where
  "selected ucd song_title artist_str artists title description =
     (let tm = title_match ucd song_title title;
          am = artist_match ucd artist_str artists title description;
          off = is_official title
      in if off \<and> (tm \<or> am) then True
         else if tm \<and> am then True
         else False)"

text \<open>One turn of \<^verbatim>\<open>for item in response['items']\<close>: \<open>Inr (Some v)\<close> returns \<open>v\<close>,
  \<open>Inr None\<close> goes on to the next item, \<open>Inl e\<close> raises.\<close>

definition api_item ::
  "unicode \<Rightarrow> str \<Rightarrow> str \<Rightarrow> str list \<Rightarrow> pyval \<Rightarrow> exn + pyval option" where
  "api_item ucd song_title artist_str artists item =
     and_then (item_fields ucd item) (\<lambda>(video_id, title, description).
     and_then (valid_video_id video_id) (\<lambda>ok.
       if \<not> ok then Inr None
       else let title_lower = lower ucd title in
         if filtered_title title_lower then Inr None
         else if selected ucd song_title artist_str artists title description
           then Inr (Some video_id)
           else Inr None))"

fun api_items ::
  "unicode \<Rightarrow> str \<Rightarrow> str \<Rightarrow> str list \<Rightarrow> pyval list \<Rightarrow> exn + pyval option" where
  "api_items ucd song_title artist_str artists [] = Inr None"
| "api_items ucd song_title artist_str artists (item # rest) =
     (case api_item ucd song_title artist_str artists item of
        Inl e \<Rightarrow> Inl e
      | Inr (Some v) \<Rightarrow> Inr (Some v)
      | Inr None \<Rightarrow> api_items ucd song_title artist_str artists rest)"

text \<open>\<^verbatim>\<open>response['items'][0]['id']['videoId']\<close> and its check, after the loop.\<close>

definition first_result :: "pyval \<Rightarrow> exn + pyval option" where
  "first_result response =
     and_then (py_getitem response (lit ''items'')) (\<lambda>items.
       if truthy items then
         and_then (py_getitem response (lit ''items'')) (\<lambda>items.
         and_then (py_first items) (\<lambda>item0.
         and_then (py_getitem item0 (lit ''id'')) (\<lambda>idv.
         and_then (py_getitem idv (lit ''videoId'')) (\<lambda>video_id.
         and_then (valid_video_id video_id) (\<lambda>ok.
           if ok then Inr (Some video_id) else Inr None)))))
       else Inr None)"

text \<open>What the inner \<^verbatim>\<open>try\<close> block does with a response.\<close>

definition api_response ::
  "unicode \<Rightarrow> str \<Rightarrow> str \<Rightarrow> str list \<Rightarrow> pyval \<Rightarrow> exn + pyval option" where
  "api_response ucd song_title artist_str artists response =
     and_then (py_in (lit ''items'') response) (\<lambda>has_items.
       if \<not> has_items then Inr None
       else
         and_then (py_getitem response (lit ''items'')) (\<lambda>items.
         and_then (py_len items) (\<lambda>n.
           if \<not> n > 0 then Inr None
           else
             and_then (py_getitem response (lit ''items'')) (\<lambda>items.
             and_then (py_iter items) (\<lambda>its.
             and_then (api_items ucd song_title artist_str artists its) (\<lambda>r.
               case r of
                 Some v \<Rightarrow> Inr (Some v)
               | None \<Rightarrow> first_result response))))))"

text \<open>The inner \<^verbatim>\<open>try\<close> block of one query variant: one request, then the scan.\<close>

definition api_try ::
  "unicode \<Rightarrow> api_client \<Rightarrow> str \<Rightarrow> str \<Rightarrow> str list \<Rightarrow> str \<Rightarrow> exn + pyval option" where
  "api_try ucd api song_title artist_str artists search_query =
     and_then (api search_query) (api_response ucd song_title artist_str artists)"

text \<open>\<^verbatim>\<open>for search_query in queries\<close> with its two handlers: status 403 breaks out of the
  loop, any other exception continues with the next query. The result is the log of the
  requests made and the value returned (\<open>None\<close> when the loop ends without a return).\<close>

fun api_loop ::
  "unicode \<Rightarrow> api_client \<Rightarrow> str \<Rightarrow> str \<Rightarrow> str list \<Rightarrow> str list \<Rightarrow>
     request list \<times> pyval option" where
  "api_loop ucd api song_title artist_str artists [] = ([], None)"
| "api_loop ucd api song_title artist_str artists (search_query # queries) =
     (case api_try ucd api song_title artist_str artists search_query of
        Inr (Some v) \<Rightarrow> ([ApiCall search_query], Some v)
      | Inr None \<Rightarrow>
          (let (log, r) = api_loop ucd api song_title artist_str artists queries
           in (ApiCall search_query # log, r))
      | Inl (HttpError status) \<Rightarrow>
          if status = 403 then ([ApiCall search_query], None)
          else (let (log, r) = api_loop ucd api song_title artist_str artists queries
                in (ApiCall search_query # log, r))
      | Inl e \<Rightarrow>
          (let (log, r) = api_loop ucd api song_title artist_str artists queries
           in (ApiCall search_query # log, r)))"

text \<open>\<^verbatim>\<open>_search_with_api\<close>. On a string and a list of strings nothing outside the loop can
  raise, so the outer handler has nothing to catch.\<close>

definition search_with_api ::
  "unicode \<Rightarrow> api_client \<Rightarrow> str \<Rightarrow> str list \<Rightarrow> request list \<times> pyval option" where
  "search_with_api ucd api song_title artists =
     (let artist_str = artist_string artists;
          queries = api_queries song_title artist_str
      in api_loop ucd api song_title artist_str artists queries)"

section \<open>The scraping strategy\<close>

subsection \<open>The two extraction passes\<close>

text \<open>\<^verbatim>\<open>re.search(r'var ytInitialData = ({.+?});', text)\<close>. The lazy \<^verbatim>\<open>.+?\<close> takes at
  least one character, never a newline, and stops at the first \<^verbatim>\<open>};\<close> after that; \<open>acc\<close>
  is what it has taken so far.\<close>

fun lazy_body :: "str \<Rightarrow> str \<Rightarrow> str option" where
  "lazy_body acc [] = None"
| "lazy_body acc (c # cs) =
     (if acc \<noteq> [] \<and> prefix (lit ''};'') (c # cs) then Some acc
      else if c = 0x0A then None
      else lazy_body (acc @ [c]) cs)"

text \<open>The search tries every start position from the left; the result is
  \<^verbatim>\<open>match.group(1)\<close>.\<close>

fun re_search_initial_data :: "str \<Rightarrow> str option" where
  "re_search_initial_data [] = None"
| "re_search_initial_data (c # cs) =
     (if prefix (lit ''var ytInitialData = {'') (c # cs) then
        (case lazy_body [] (drop 21 (c # cs)) of
           Some body \<Rightarrow> Some ((lit ''{'') @ body @ (lit ''}''))
         | None \<Rightarrow> re_search_initial_data cs)
      else re_search_initial_data cs)"

text \<open>The body of the \<^verbatim>\<open>try\<close> block of \<^verbatim>\<open>_extract_video_ids_from_json\<close> appends to
  \<^verbatim>\<open>video_ids\<close> and may raise half-way; the handler keeps what was appended. A piece of
  that block therefore yields the IDs it appended and the exception it raised, if any.\<close>

type_synonym collected = "pyval list \<times> exn option"

text \<open>A \<^verbatim>\<open>for\<close> loop whose body appends and may raise.\<close>

fun collect :: "(pyval \<Rightarrow> collected) \<Rightarrow> pyval list \<Rightarrow> collected" where
  "collect loop_body [] = ([], None)"
| "collect loop_body (x # xs) =
     (case loop_body x of
        (ids, Some e) \<Rightarrow> (ids, Some e)
      | (ids, None) \<Rightarrow> (let (ids', r) = collect loop_body xs in (ids @ ids', r)))"

text \<open>One turn of \<^verbatim>\<open>for item in items\<close>.\<close>

definition renderer_ids :: "pyval \<Rightarrow> collected" where
  "renderer_ids item =
     (case py_get item (lit ''videoRenderer'') (VDict []) of
        Inl e \<Rightarrow> ([], Some e)
      | Inr video_renderer \<Rightarrow>
          if truthy video_renderer then
            (case py_get video_renderer (lit ''videoId'') VNone of
               Inl e \<Rightarrow> ([], Some e)
             | Inr video_id \<Rightarrow>
                 if truthy video_id then
                   (case valid_video_id video_id of
                      Inl e \<Rightarrow> ([], Some e)
                    | Inr ok \<Rightarrow> (if ok then [video_id] else [], None))
                 else ([], None))
          else ([], None))"

text \<open>One turn of \<^verbatim>\<open>for content in contents_list\<close>.\<close>

definition section_ids :: "pyval \<Rightarrow> collected" where
  "section_ids content =
     (case and_then (py_get content (lit ''itemSectionRenderer'') (VDict [])) (\<lambda>item_section.
           and_then (py_get item_section (lit ''contents'') (VList [])) (\<lambda>items.
           py_iter items)) of
        Inl e \<Rightarrow> ([], Some e)
      | Inr its \<Rightarrow> collect renderer_ids its)"

text \<open>The navigation from the decoded \<^verbatim>\<open>ytInitialData\<close> down to the sections.\<close>

definition initial_data_ids :: "pyval \<Rightarrow> collected" where
  "initial_data_ids data =
     (case and_then (py_get data (lit ''contents'') (VDict [])) (\<lambda>contents.
           and_then (py_get contents (lit ''twoColumnSearchResultsRenderer'') (VDict []))
             (\<lambda>two_column_search.
           and_then (py_get two_column_search (lit ''primaryContents'') (VDict []))
             (\<lambda>primary_contents.
           and_then (py_get primary_contents (lit ''sectionListRenderer'') (VDict []))
             (\<lambda>section_list.
           and_then (py_get section_list (lit ''contents'') (VList [])) (\<lambda>contents_list.
           py_iter contents_list))))) of
        Inl e \<Rightarrow> ([], Some e)
      | Inr cs \<Rightarrow> collect section_ids cs)"

text \<open>\<^verbatim>\<open>_extract_video_ids_from_json\<close>. The decoder \<^verbatim>\<open>json.loads\<close> belongs to the
  standard library and is a parameter: it returns a value or raises.\<close>

type_synonym json_decoder = "str \<Rightarrow> exn + pyval"

definition extract_video_ids_from_json :: "json_decoder \<Rightarrow> str \<Rightarrow> pyval list" where
  "extract_video_ids_from_json json_loads body =
     (case re_search_initial_data body of
        None \<Rightarrow> []
      | Some group1 \<Rightarrow>
          (case json_loads group1 of
             Inl e \<Rightarrow> []
           | Inr data \<Rightarrow> fst (initial_data_ids data)))"

text \<open>\<^verbatim>\<open>re.findall(r'/watch\?v=([a-zA-Z0-9_-]{11})', text)\<close>: the matches from left to
  right, the search resuming after the 20 characters of a match.\<close>

definition watch_at :: "str \<Rightarrow> str option" where
  "watch_at s =
     (if prefix (lit ''/watch?v='') s then
        (let rest = drop 9 s in
         if length rest \<ge> 11 \<and> list_all is_id_char (take 11 rest)
         then Some (take 11 rest) else None)
      else None)"

fun findall_watch :: "str \<Rightarrow> str list" where
  "findall_watch [] = []"
| "findall_watch (c # cs) =
     (case watch_at (c # cs) of
        Some vid \<Rightarrow> vid # findall_watch (drop 19 cs)
      | None \<Rightarrow> findall_watch cs)"

subsection \<open>Requests\<close>

text \<open>\<^verbatim>\<open>requests.utils.quote\<close>, that is \<^verbatim>\<open>urllib.parse.quote\<close> with \<^verbatim>\<open>safe='/'\<close>: the
  string is encoded as UTF-8, which raises \<^verbatim>\<open>UnicodeEncodeError\<close> (a \<^verbatim>\<open>ValueError\<close>) on
  a surrogate, and every byte that is not a letter, a digit or one of \<^verbatim>\<open>_.-~/\<close> is
  written \<^verbatim>\<open>%XX\<close>.\<close>

definition utf8 :: "codepoint \<Rightarrow> exn + nat list" where
  "utf8 c =
     (if c < 0x80 then Inr [c]
      else if c < 0x800 then Inr [0xC0 + c div 0x40, 0x80 + c mod 0x40]
      else if c < 0x10000 then
        (if 0xD800 \<le> c \<and> c \<le> 0xDFFF then Inl ValueError
         else Inr [0xE0 + c div 0x1000, 0x80 + c div 0x40 mod 0x40, 0x80 + c mod 0x40])
      else if c < 0x110000 then
        Inr [0xF0 + c div 0x40000, 0x80 + c div 0x1000 mod 0x40,
             0x80 + c div 0x40 mod 0x40, 0x80 + c mod 0x40]
      else Inl ValueError)"

fun encode_utf8 :: "str \<Rightarrow> exn + nat list" where
  "encode_utf8 [] = Inr []"
| "encode_utf8 (c # cs) =
     and_then (utf8 c) (\<lambda>bytes.
     and_then (encode_utf8 cs) (\<lambda>rest. Inr (bytes @ rest)))"

definition safe_bytes :: str where
  "safe_bytes = lit ''ABCDEFGHIJKLMNOPQRSTUVWXYZabcdefghijklmnopqrstuvwxyz0123456789_.-~/''"

definition hex_digit :: "nat \<Rightarrow> codepoint" where
  "hex_digit n = lit ''0123456789ABCDEF'' ! (n mod 16)"

definition quote_byte :: "nat \<Rightarrow> str" where
  "quote_byte b =
     (if b \<in> set safe_bytes then [b]
      else [0x25, hex_digit (b div 16), hex_digit b])"

definition quote :: "str \<Rightarrow> exn + str" where
  "quote s = and_then (encode_utf8 s) (\<lambda>bytes. Inr (concat (map quote_byte bytes)))"

record http_response =
  status_code :: int
  response_text :: str

text \<open>The HTTP session: the outcome of \<^verbatim>\<open>session.get(url, timeout=15)\<close> for a URL.\<close>

type_synonym http_session = "str \<Rightarrow> exn + http_response"

text \<open>The f-string that builds the search URL; it raises when \<^verbatim>\<open>quote\<close> does.\<close>

definition search_url :: "str \<Rightarrow> exn + str" where
  "search_url search_query =
     and_then (quote search_query) (\<lambda>quoted.
       Inr (lit ''https://www.youtube.com/results?search_query='' @ quoted))"

subsection \<open>The strategy\<close>

text \<open>\<^verbatim>\<open>for vid_id in ...: if self._is_valid_video_id(vid_id): return vid_id\<close>\<close>

fun first_valid :: "pyval list \<Rightarrow> exn + pyval option" where
  "first_valid [] = Inr None"
| "first_valid (vid_id # rest) =
     and_then (valid_video_id vid_id) (\<lambda>ok.
       if ok then Inr (Some vid_id) else first_valid rest)"

definition scrape_response :: "json_decoder \<Rightarrow> http_response \<Rightarrow> exn + pyval option" where
  "scrape_response json_loads response =
     (if status_code response = 200 then
        (let body = response_text response;
             video_ids = extract_video_ids_from_json json_loads body
         in and_then (if video_ids \<noteq> [] then first_valid video_ids else Inr None) (\<lambda>r.
              case r of
                Some v \<Rightarrow> Inr (Some v)
              | None \<Rightarrow>
                  (let watch_matches = map VStr (findall_watch body)
                   in if watch_matches \<noteq> [] then first_valid watch_matches else Inr None)))
      else Inr None)"

text \<open>The inner \<^verbatim>\<open>try\<close> block from the request on.\<close>

definition scrape_try ::
  "json_decoder \<Rightarrow> http_session \<Rightarrow> str \<Rightarrow> exn + pyval option" where
  "scrape_try json_loads session url =
     and_then (session url) (scrape_response json_loads)"

text \<open>\<^verbatim>\<open>for search_query in queries\<close>: an empty stripped query is skipped; an exception
  while the URL is built, a timeout or any other exception of the request and of what
  follows continue with the next query. A request is logged once it is made.\<close>

fun scrape_loop ::
  "unicode \<Rightarrow> json_decoder \<Rightarrow> http_session \<Rightarrow> str list \<Rightarrow> request list \<times> pyval option" where
  "scrape_loop ucd json_loads session [] = ([], None)"
| "scrape_loop ucd json_loads session (q # queries) =
     (let search_query = strip ucd q in
      if search_query = [] then scrape_loop ucd json_loads session queries
      else
        (case search_url search_query of
           Inl e \<Rightarrow> scrape_loop ucd json_loads session queries
         | Inr url \<Rightarrow>
             (case scrape_try json_loads session url of
                Inr (Some v) \<Rightarrow> ([HttpGet url], Some v)
              | Inr None \<Rightarrow>
                  (let (log, r) = scrape_loop ucd json_loads session queries
                   in (HttpGet url # log, r))
              | Inl Timeout \<Rightarrow>
                  (let (log, r) = scrape_loop ucd json_loads session queries
                   in (HttpGet url # log, r))
              | Inl e \<Rightarrow>
                  (let (log, r) = scrape_loop ucd json_loads session queries
                   in (HttpGet url # log, r)))))"

definition scraping_queries :: "str \<Rightarrow> str \<Rightarrow> str list" where
  "scraping_queries song_title artist_str =
     [song_title @ (lit '' '') @ artist_str @ (lit '' official audio''),
      song_title @ (lit '' '') @ artist_str @ (lit '' official''),
      song_title @ (lit '' '') @ artist_str @ (lit '' music''),
      song_title @ (lit '' '') @ artist_str]"

text \<open>\<^verbatim>\<open>_search_with_scraping\<close>.\<close>

definition search_with_scraping ::
  "unicode \<Rightarrow> json_decoder \<Rightarrow> http_session \<Rightarrow> str \<Rightarrow> str list \<Rightarrow> request list \<times> pyval option" where
  "search_with_scraping ucd json_loads session song_title artists =
     (if song_title = [] \<or> strip ucd song_title = [] then ([], None)
      else
        (let artist_str = artist_string artists;
             queries = scraping_queries song_title artist_str
         in scrape_loop ucd json_loads session queries))"

section \<open>The service\<close>

record service =
  api_key :: str
  youtube_api :: "api_client option"
  session :: http_session

text \<open>\<^verbatim>\<open>__init__\<close>: \<open>env_key\<close> is the environment's \<^verbatim>\<open>YOUTUBE_API_KEY\<close> if set,
  \<open>api_available\<close> is \<^verbatim>\<open>YOUTUBE_API_AVAILABLE\<close>, \<open>build\<close> creates the client from the key
  or raises, \<open>new_session\<close> is the \<^verbatim>\<open>requests.Session()\<close>.\<close>

definition init ::
  "str option \<Rightarrow> bool \<Rightarrow> (str \<Rightarrow> exn + api_client) \<Rightarrow> http_session \<Rightarrow> service" where
  "init env_key api_available build new_session =
     (let key = (case env_key of None \<Rightarrow> [] | Some k \<Rightarrow> k) in
      \<lparr> api_key = key,
        youtube_api =
          (if key \<noteq> [] \<and> api_available then
             (case build key of Inr client \<Rightarrow> Some client | Inl e \<Rightarrow> None)
           else None),
        session = new_session \<rparr>)"

text \<open>\<^verbatim>\<open>search_video_id\<close>. A client object is truthy, so \<^verbatim>\<open>if self.youtube_api\<close> asks
  whether there is one.\<close>

definition search_video_id ::
  "unicode \<Rightarrow> json_decoder \<Rightarrow> service \<Rightarrow> str \<Rightarrow> str list \<Rightarrow> request list \<times> pyval option" where
  "search_video_id ucd json_loads self song_title artists =
     (case youtube_api self of
        Some api \<Rightarrow> search_with_api ucd api song_title artists
      | None \<Rightarrow> search_with_scraping ucd json_loads (session self) song_title artists)"

subsection \<open>URL builders\<close>

text \<open>The list \<^verbatim>\<open>params\<close>; building it calls \<^verbatim>\<open>quote\<close> on the origin.\<close>

definition embed_params :: "exn + str list" where
  "embed_params =
     and_then (quote (lit ''http://localhost:8000'')) (\<lambda>origin. Inr
       [lit ''autoplay=0'',
        lit ''enablejsapi=1'',
        lit ''origin='' @ origin,
        lit ''rel=0'',
        lit ''modestbranding=1'',
        lit ''iv_load_policy=3'',
        lit ''fs=0'',
        lit ''playsinline=1'',
        lit ''controls=0'',
        lit ''disablekb=1'',
        lit ''cc_load_policy=0'',
        lit ''loop=0'',
        lit ''mute=0'',
        lit ''start=0''])"

definition get_embed_url :: "service \<Rightarrow> str \<Rightarrow> exn + str" where
  "get_embed_url self video_id =
     and_then embed_params (\<lambda>params. Inr
       (lit ''https://www.youtube-nocookie.com/embed/'' @ video_id @ lit ''?''
          @ join (lit ''&'') params))"

definition get_watch_url :: "service \<Rightarrow> str \<Rightarrow> str" where
  "get_watch_url self video_id = lit ''https://www.youtube.com/watch?v='' @ video_id"

section \<open>Notions used to state the properties\<close>

text \<open>The outcomes of one query variant after which the API loop goes on to the next
  variant: the block ended without a return, or raised anything but an \<open>HttpError\<close> of
  status 403.\<close>

fun continues :: "exn + pyval option \<Rightarrow> bool" where
  "continues (Inr None) = True"
| "continues (Inr (Some v)) = False"
| "continues (Inl (HttpError status)) = (status \<noteq> 403)"
| "continues (Inl e) = True"

text \<open>What the API loop returns when it stops at a variant.\<close>

fun stops_with :: "exn + pyval option \<Rightarrow> pyval option" where
  "stops_with (Inr r) = r"
| "stops_with (Inl e) = None"

fun is_api_call :: "request \<Rightarrow> bool" where
  "is_api_call (ApiCall q) = True"
| "is_api_call (HttpGet url) = False"

fun is_http_get :: "request \<Rightarrow> bool" where
  "is_http_get (ApiCall q) = False"
| "is_http_get (HttpGet url) = True"

text \<open>The URLs requested for a list of stripped queries when every one of them is tried:
  an empty query is skipped, and so is a query whose URL cannot be built.\<close>

fun request_urls :: "str list \<Rightarrow> str list" where
  "request_urls [] = []"
| "request_urls (q # qs) =
     (if q = [] then request_urls qs
      else (case search_url q of
              Inl e \<Rightarrow> request_urls qs
            | Inr url \<Rightarrow> url # request_urls qs))"

text \<open>A value that passes \<^verbatim>\<open>_is_valid_video_id\<close>.\<close>

definition format_valid :: "pyval \<Rightarrow> bool" where
  "format_valid v = (valid_video_id v = Inr True)"

subsection \<open>The scraping strategy in the words of the specification\<close>









text \<open>Over the variants in order, for a given treatment of a 200 response: the URL is built
  by percent-encoding the query and requested once; a failure to build it, a failed request,
  a response other than 200 and a response without a valid ID lead to the next variant;
  none when the variants are exhausted.\<close>

fun scraping_over ::
  "(str \<Rightarrow> pyval option) \<Rightarrow> http_session \<Rightarrow> str list \<Rightarrow> pyval option" where
  "scraping_over pass http [] = None"
| "scraping_over pass http (q # qs) =
     (case search_url q of
        Inl e \<Rightarrow> scraping_over pass http qs
      | Inr url \<Rightarrow>
          (case http url of
             Inl e \<Rightarrow> scraping_over pass http qs
           | Inr response \<Rightarrow>
               if status_code response = 200 then
                 (case pass (response_text response) of
                    Some v \<Rightarrow> Some v
                  | None \<Rightarrow> scraping_over pass http qs)
               else scraping_over pass http qs))"



subsection \<open>What the source's JSON pass keeps\<close>

text \<open>The two passes of the source on a page, read off \<^verbatim>\<open>_extract_video_ids_from_json\<close>:
  the first ID the JSON pass has kept, otherwise the first format-valid match of the regex
  pass.\<close>

definition kept_scraping_pass :: "json_decoder \<Rightarrow> str \<Rightarrow> pyval option" where
  "kept_scraping_pass json_loads body =
     (case extract_video_ids_from_json json_loads body of
        v # _ \<Rightarrow> Some v
      | [] \<Rightarrow> find format_valid (map VStr (findall_watch body)))"


section \<open>Test doubles\<close>

text \<open>But for the last two, the test doubles hold ASCII text only. On ASCII text
  \<^verbatim>\<open>str.lower()\<close> folds the letters \<^verbatim>\<open>A\<close> to \<^verbatim>\<open>Z\<close>, and the white space is the tab, the line feed, the vertical
  tab, the form feed, the carriage return, the four separators \<^verbatim>\<open>0x1C\<close> to \<^verbatim>\<open>0x1F\<close> and
  the space.\<close>

definition ascii_lower :: "codepoint \<Rightarrow> codepoint" where
  "ascii_lower c = (if 0x41 \<le> c \<and> c \<le> 0x5A then c + 0x20 else c)"

definition ascii_text :: unicode where
  "ascii_text =
     \<lparr> lower = map ascii_lower,
       is_space = (\<lambda>c. c \<in> set [0x09, 0x0A, 0x0B, 0x0C, 0x0D, 0x1C, 0x1D, 0x1E, 0x1F, 0x20]) \<rparr>"

text \<open>A database in which the next line \<^verbatim>\<open>U+0085\<close>, the no-break space \<^verbatim>\<open>U+00A0\<close>
  and the em space \<^verbatim>\<open>U+2003\<close> are white space too, and in which \<^verbatim>\<open>str.lower()\<close> also
  folds the capital letters of Latin-1, \<^verbatim>\<open>U+00C0\<close> to \<^verbatim>\<open>U+00DE\<close> without \<^verbatim>\<open>U+00D7\<close>.\<close>

definition latin_lower :: "codepoint \<Rightarrow> codepoint" where
  "latin_lower c =
     (if 0x41 \<le> c \<and> c \<le> 0x5A then c + 0x20
      else if 0xC0 \<le> c \<and> c \<le> 0xDE \<and> c \<noteq> 0xD7 then c + 0x20
      else c)"

definition latin_text :: unicode where
  "latin_text =
     \<lparr> lower = map latin_lower,
       is_space = (\<lambda>c. c \<in> set [0x09, 0x0A, 0x0B, 0x0C, 0x0D, 0x1C, 0x1D, 0x1E, 0x1F, 0x20,
                                 0x85, 0xA0, 0x2003]) \<rparr>"

text \<open>A search result item and a search response as the Data API lays them out.\<close>

definition result_item :: "str \<Rightarrow> str \<Rightarrow> str \<Rightarrow> pyval" where
  "result_item video_id title description =
     VDict [(lit ''kind'', VStr (lit ''youtube#searchResult'')),
            (lit ''id'', VDict [(lit ''kind'', VStr (lit ''youtube#video'')),
                                (lit ''videoId'', VStr video_id)]),
            (lit ''snippet'', VDict [(lit ''title'', VStr title),
                                     (lit ''description'', VStr description)])]"

definition search_response :: "pyval list \<Rightarrow> pyval" where
  "search_response items =
     VDict [(lit ''kind'', VStr (lit ''youtube#searchListResponse'')),
            (lit ''items'', VList items)]"

text \<open>An API client answering from a table; a query not in the table has no results.\<close>

definition api_double :: "(str \<times> (exn + pyval)) list \<Rightarrow> api_client" where
  "api_double answers q =
     (case map_of answers q of Some r \<Rightarrow> r | None \<Rightarrow> Inr (search_response []))"

text \<open>An HTTP session answering from a table; a URL not in the table is not found.\<close>

definition http_double :: "(str \<times> (exn + http_response)) list \<Rightarrow> http_session" where
  "http_double answers url =
     (case map_of answers url of
        Some r \<Rightarrow> r
      | None \<Rightarrow> Inr \<lparr>status_code = 404, response_text = []\<rparr>)"

text \<open>A decoder that rejects every input.\<close>

definition no_json :: json_decoder where
  "no_json s = Inl ValueError"

text \<open>A service with a key and a client, and a service without a key.\<close>

definition api_service :: "api_client \<Rightarrow> service" where
  "api_service api = init (Some (lit ''key'')) True (\<lambda>k. Inr api) (http_double [])"

definition scraping_service :: "http_session \<Rightarrow> service" where
  "scraping_service http = init None True (\<lambda>k. Inl OtherException) http"

definition weeknd_official :: pyval where
  "weeknd_official =
     result_item (lit ''4NRXx6U8ABQ'') (lit ''The Weeknd - Blinding Lights (Official Video)'')
       (lit ''...'')"

definition weeknd_api :: api_client where
  "weeknd_api = api_double
     [(lit ''Blinding Lights The Weeknd official audio'',
       Inr (search_response [weeknd_official]))]"

text \<open>A client whose credential is rejected on every request.\<close>

definition quota_api :: api_client where
  "quota_api q = Inl (HttpError 403)"


definition video_renderer :: "str \<Rightarrow> pyval" where
  "video_renderer video_id =
     VDict [(lit ''videoRenderer'', VDict [(lit ''videoId'', VStr video_id)])]"







text \<open>A session on which every request times out.\<close>

definition timeout_session :: http_session where
  "timeout_session url = Inl Timeout"

text \<open>Result items: an unrelated video, a lyrics upload, the official audio, an item with
  a placeholder ID, and a short.\<close>

definition cooking_item :: pyval where
  "cooking_item =
     result_item (lit ''cookingvid1'') (lit ''Cooking pasta at home'') (lit ''a recipe'')"

definition lyrics_item :: pyval where
  "lyrics_item =
     result_item (lit ''lyricsvid01'') (lit ''The Weeknd - Blinding Lights (Lyrics)'')
       (lit ''lyrics'')"

definition audio_item :: pyval where
  "audio_item =
     result_item (lit ''4NRXx6U8ABQ'') (lit ''The Weeknd - Blinding Lights (Official Audio)'')
       (lit ''audio'')"

definition placeholder_item :: pyval where
  "placeholder_item =
     result_item (lit ''undefined'') (lit ''Cooking pasta'') (lit ''a recipe'')"

definition shorts_item :: pyval where
  "shorts_item =
     result_item (lit ''shortsvid01'') (lit ''Song Title #shorts'') (lit ''a short'')"

text \<open>Clients for \<^verbatim>\<open>Blinding Lights\<close> by \<^verbatim>\<open>The Weeknd\<close>: the first variant finds only the
  unrelated video while the second would find the official one; the first variant finds a
  placeholder and the unrelated video; only the second variant finds the unrelated video.\<close>

definition fallback_api :: api_client where
  "fallback_api = api_double
     [(lit ''Blinding Lights The Weeknd official audio'', Inr (search_response [cooking_item])),
      (lit ''Blinding Lights The Weeknd official'', Inr (search_response [weeknd_official]))]"

definition placeholder_api :: api_client where
  "placeholder_api = api_double
     [(lit ''Blinding Lights The Weeknd official audio'',
       Inr (search_response [placeholder_item, cooking_item]))]"

definition late_fallback_api :: api_client where
  "late_fallback_api = api_double
     [(lit ''Blinding Lights The Weeknd official'', Inr (search_response [cooking_item]))]"

text \<open>The first variant finds the lyrics upload listed before the official audio.\<close>

definition order_api :: api_client where
  "order_api = api_double
     [(lit ''Blinding Lights The Weeknd official audio'',
       Inr (search_response [lyrics_item, audio_item]))]"

text \<open>The only result for \<^verbatim>\<open>Song Title\<close> is a short.\<close>

definition shorts_api :: api_client where
  "shorts_api = api_double
     [(lit ''Song Title  official audio'', Inr (search_response [shorts_item]))]"

text \<open>Results for the title \<^verbatim>\<open>U+00C9\<close>\<^verbatim>\<open>cole\<close> without artists: the unrelated video, then
  an upload whose title starts with the small letter \<^verbatim>\<open>U+00E9\<close>.\<close>

definition ecole_item :: pyval where
  "ecole_item = result_item (lit ''ecolevid001'') (0xE9 # lit ''cole (audio)'') (lit ''audio'')"

definition ecole_api :: api_client where
  "ecole_api = api_double
     [(0xC9 # lit ''cole  official audio'', Inr (search_response [cooking_item, ecole_item]))]"

section \<open>Properties\<close>

subsection \<open>Raising and returning\<close>

lemma and_then_Inr: "and_then m f = Inr y \<longleftrightarrow> (\<exists>x. m = Inr x \<and> f x = Inr y)"
  by (cases m) (auto simp: and_then_def)

lemma and_then_Inl: "and_then m f = Inl e \<longleftrightarrow> (m = Inl e \<or> (\<exists>x. m = Inr x \<and> f x = Inl e))"
  by (cases m) (auto simp: and_then_def)

subsection \<open>Every returned ID passed the validation\<close>

lemma is_valid_video_id_shape:
  assumes "is_valid_video_id s"
  shows "length s = 11 \<and> list_all is_id_char s \<and> s \<notin> set invalid_patterns"
proof -
  from assms have len: "length s = 11"
    by (simp add: is_valid_video_id_def split: if_splits)
  then have "take 11 s = s" by simp
  with assms len show ?thesis
    by (simp add: is_valid_video_id_def re_match_id_def split: if_splits)
qed

lemma valid_video_id_True:
  "valid_video_id v = Inr True \<Longrightarrow> \<exists>s. v = VStr s \<and> is_valid_video_id s"
  by (cases v) (auto simp: valid_video_id_def and_then_Inr split: if_splits)

lemma api_item_Some:
  "api_item ucd t a as item = Inr (Some v) \<Longrightarrow> valid_video_id v = Inr True"
  by (auto simp: api_item_def and_then_Inr Let_def split: if_splits prod.splits)

lemma api_items_Some:
  "api_items ucd t a as its = Inr (Some v) \<Longrightarrow> valid_video_id v = Inr True"
  by (induction its) (auto split: sum.splits option.splits dest: api_item_Some)

lemma first_result_Some:
  "first_result response = Inr (Some v) \<Longrightarrow> valid_video_id v = Inr True"
  by (auto simp: first_result_def and_then_Inr split: if_splits)

lemma api_response_Some:
  "api_response ucd t a as response = Inr (Some v) \<Longrightarrow> valid_video_id v = Inr True"
  by (auto simp: api_response_def and_then_Inr split: if_splits option.splits
           dest: api_items_Some first_result_Some)

lemma api_try_Some:
  "api_try ucd api t a as q = Inr (Some v) \<Longrightarrow> valid_video_id v = Inr True"
  by (auto simp: api_try_def and_then_Inr dest: api_response_Some)

lemma api_loop_Some:
  "snd (api_loop ucd api t a as qs) = Some v \<Longrightarrow> valid_video_id v = Inr True"
  by (induction qs)
     (auto split: sum.splits option.splits exn.splits if_splits prod.splits dest: api_try_Some)

lemma first_valid_Some:
  "first_valid vs = Inr (Some v) \<Longrightarrow> valid_video_id v = Inr True"
  by (induction vs) (auto simp: and_then_Inr split: if_splits)

lemma scrape_response_Some:
  "scrape_response jl response = Inr (Some v) \<Longrightarrow> valid_video_id v = Inr True"
  by (auto simp: scrape_response_def and_then_Inr Let_def split: if_splits option.splits
           dest: first_valid_Some)

lemma scrape_try_Some:
  "scrape_try jl http q = Inr (Some v) \<Longrightarrow> valid_video_id v = Inr True"
  by (auto simp: scrape_try_def and_then_Inr dest: scrape_response_Some)

lemma scrape_loop_Some:
  "snd (scrape_loop ucd jl http qs) = Some v \<Longrightarrow> valid_video_id v = Inr True"
  by (induction qs)
     (auto simp: Let_def split: sum.splits option.splits exn.splits if_splits prod.splits
           dest: scrape_try_Some)

lemma search_video_id_Some:
  "snd (search_video_id ucd jl self t as) = Some v \<Longrightarrow> valid_video_id v = Inr True"
  by (auto simp: search_video_id_def search_with_api_def search_with_scraping_def Let_def
           split: option.splits if_splits dest: api_loop_Some scrape_loop_Some)

text \<open>
  \<^bold>\<open>C1.\<close> Whenever \<open>search_video_id\<close> returns a value rather than none, over either
  strategy, that value is a string of length exactly 11, all of whose characters are
  letters, digits, \<open>_\<close> or \<open>-\<close> (it matches \<^verbatim>\<open>[a-zA-Z0-9_-]{11}\<close>), and it is none of
  the denylisted strings \<^verbatim>\<open>AAAAAAAAAAA\<close>, \<^verbatim>\<open>undefined\<close>, \<^verbatim>\<open>null\<close>, \<^verbatim>\<open>true\<close>,
  \<^verbatim>\<open>false\<close>.
\<close>

theorem returned_id_format:
  assumes "snd (search_video_id ucd json_loads self song_title artists) = Some v"
  shows "\<exists>s. v = VStr s \<and> length s = 11 \<and> list_all is_id_char s \<and>
             s \<notin> {lit ''AAAAAAAAAAA'', lit ''undefined'', lit ''null'', lit ''true'', lit ''false''}"
proof -
  from assms have "valid_video_id v = Inr True" by (rule search_video_id_Some)
  then obtain s where "v = VStr s" and "is_valid_video_id s"
    using valid_video_id_True by blast
  with is_valid_video_id_shape [of s] show ?thesis
    by (simp add: invalid_patterns_def)
qed

theorem returned_id_format_witness:
  "snd (search_video_id ascii_text no_json (api_service weeknd_api) (lit ''Blinding Lights'') [lit ''The Weeknd''])
     = Some (VStr (lit ''4NRXx6U8ABQ'')) \<and>
   (\<exists>s. VStr (lit ''4NRXx6U8ABQ'') = VStr s \<and> length s = 11 \<and> list_all is_id_char s \<and>
        s \<notin> {lit ''AAAAAAAAAAA'', lit ''undefined'', lit ''null'', lit ''true'', lit ''false''})"
proof -
  have run: "snd (search_video_id ascii_text no_json (api_service weeknd_api) (lit ''Blinding Lights'')
                   [lit ''The Weeknd'']) = Some (VStr (lit ''4NRXx6U8ABQ''))"
    by code_simp
  from run returned_id_format [OF run] show ?thesis by blast
qed

subsection \<open>The API loop, one variant at a time\<close>

lemma api_loop_step:
  "api_loop ucd api t a as (q # qs) =
     (if continues (api_try ucd api t a as q)
      then (ApiCall q # fst (api_loop ucd api t a as qs), snd (api_loop ucd api t a as qs))
      else ([ApiCall q], stops_with (api_try ucd api t a as q)))"
  by (auto split: sum.splits option.splits exn.splits prod.splits)

lemma api_try_raises: "api q = Inl e \<Longrightarrow> api_try ucd api t a as q = Inl e"
  by (simp add: api_try_def and_then_def)

lemma api_loop_log_prefix: "prefix (fst (api_loop ucd api t a as qs)) (map ApiCall qs)"
  by (induction qs) (simp_all only: api_loop_step, auto)

lemma api_loop_403_last:
  assumes "api_loop ucd api t a as qs = (log, r)" and "j < length log"
    and "log ! j = ApiCall q" and "api q = Inl (HttpError 403)"
  shows "log = map ApiCall (take (Suc j) qs) \<and> r = None"
  using assms
proof (induction qs arbitrary: log r j)
  case Nil
  then show ?case by simp
next
  case (Cons q0 qs)
  show ?case
  proof (cases "continues (api_try ucd api t a as q0)")
    case True
    with Cons.prems(1) have log: "log = ApiCall q0 # fst (api_loop ucd api t a as qs)"
      and r: "r = snd (api_loop ucd api t a as qs)"
      by (simp_all only: api_loop_step if_True prod.inject)
    show ?thesis
    proof (cases j)
      case 0
      with Cons.prems(3) log have "q = q0" by simp
      with Cons.prems(4) have "api_try ucd api t a as q0 = Inl (HttpError 403)"
        by (simp add: api_try_raises)
      with True show ?thesis by simp
    next
      case (Suc j')
      with Cons.prems(2,3) log
      have "j' < length (fst (api_loop ucd api t a as qs))"
        and "fst (api_loop ucd api t a as qs) ! j' = ApiCall q" by simp_all
      with Cons.IH [of "fst (api_loop ucd api t a as qs)" "snd (api_loop ucd api t a as qs)" j']
        Cons.prems(4)
      have "fst (api_loop ucd api t a as qs) = map ApiCall (take (Suc j') qs) \<and>
            snd (api_loop ucd api t a as qs) = None" by simp
      with log r Suc show ?thesis by simp
    qed
  next
    case False
    with Cons.prems(1) have log: "log = [ApiCall q0]"
      and r: "r = stops_with (api_try ucd api t a as q0)"
      by (simp_all only: api_loop_step if_False prod.inject)
    with Cons.prems(2,3) have "j = 0" and "q = q0" by simp_all
    with Cons.prems(4) have "api_try ucd api t a as q0 = Inl (HttpError 403)"
      by (simp add: api_try_raises)
    with log r \<open>j = 0\<close> show ?thesis by simp
  qed
qed

text \<open>
  \<^bold>\<open>C6.\<close> In the API strategy, a request that fails with an authorization/quota error
  (\<open>HttpError\<close> of status 403) is the last request of the call, whichever query variant
  it was made for: the requests made are exactly the variants up to that one, in order, no
  later variant issues a request, and the call returns none.
\<close>

theorem quota_error_aborts:
  assumes "search_with_api ucd api song_title artists = (log, r)"
    and "j < length log" and "log ! j = ApiCall q" and "api q = Inl (HttpError 403)"
  shows "Suc j = length log \<and> r = None \<and>
         log = map ApiCall (take (Suc j) (api_queries song_title (artist_string artists)))"
proof -
  let ?qs = "api_queries song_title (artist_string artists)"
  from assms(1) have "api_loop ucd api song_title (artist_string artists) artists ?qs = (log, r)"
    by (simp add: search_with_api_def Let_def)
  from api_loop_403_last [OF this assms(2,3,4)]
  have *: "log = map ApiCall (take (Suc j) ?qs)" and "r = None" by simp_all
  from * have "length log \<le> Suc j" by simp
  with assms(2) have "Suc j = length log" by simp
  with * \<open>r = None\<close> show ?thesis by simp
qed

theorem quota_error_aborts_witness:
  "search_with_api ascii_text quota_api (lit ''Blinding Lights'') [lit ''The Weeknd'']
     = ([ApiCall (lit ''Blinding Lights The Weeknd official audio'')], None) \<and>
   (0::nat) < length [ApiCall (lit ''Blinding Lights The Weeknd official audio'')] \<and>
   [ApiCall (lit ''Blinding Lights The Weeknd official audio'')] ! 0
     = ApiCall (lit ''Blinding Lights The Weeknd official audio'') \<and>
   quota_api (lit ''Blinding Lights The Weeknd official audio'') = Inl (HttpError 403) \<and>
   Suc 0 = length [ApiCall (lit ''Blinding Lights The Weeknd official audio'')] \<and>
   (None :: pyval option) = None \<and>
   [ApiCall (lit ''Blinding Lights The Weeknd official audio'')]
     = map ApiCall (take (Suc 0) (api_queries (lit ''Blinding Lights'') (artist_string [lit ''The Weeknd''])))"
proof -
  have run: "search_with_api ascii_text quota_api (lit ''Blinding Lights'') [lit ''The Weeknd'']
     = ([ApiCall (lit ''Blinding Lights The Weeknd official audio'')], None)"
    by code_simp
  have err: "quota_api (lit ''Blinding Lights The Weeknd official audio'') = Inl (HttpError 403)"
    by (simp add: quota_api_def)
  have pos: "(0::nat) < length [ApiCall (lit ''Blinding Lights The Weeknd official audio'')]"
    by simp
  have nth: "[ApiCall (lit ''Blinding Lights The Weeknd official audio'')] ! 0
     = ApiCall (lit ''Blinding Lights The Weeknd official audio'')" by simp
  from quota_error_aborts [OF run pos nth err] run pos nth err show ?thesis by blast
qed

subsection \<open>The scraping loop, one variant at a time\<close>

lemma strip_Nil_iff: "strip ucd s = [] \<longleftrightarrow> (\<forall>c\<in>set s. is_space ucd c)"
proof
  assume "strip ucd s = []"
  then have "\<forall>c\<in>set (dropWhile (is_space ucd) s). is_space ucd c"
    by (simp add: strip_def)
  then have "dropWhile (is_space ucd) s = []"
    by (metis hd_dropWhile hd_in_set)
  then show "\<forall>c\<in>set s. is_space ucd c" by simp
next
  assume "\<forall>c\<in>set s. is_space ucd c"
  then show "strip ucd s = []" by (auto simp: strip_def dest: set_dropWhileD)
qed

lemma scrape_loop_skip:
  "strip ucd q = [] \<Longrightarrow> scrape_loop ucd jl http (q # qs) = scrape_loop ucd jl http qs"
  by (simp add: Let_def)

lemma scrape_loop_no_url:
  "search_url (strip ucd q) = Inl e \<Longrightarrow>
     scrape_loop ucd jl http (q # qs) = scrape_loop ucd jl http qs"
  by (simp add: Let_def)

lemma scrape_loop_step:
  "strip ucd q \<noteq> [] \<Longrightarrow> search_url (strip ucd q) = Inr url \<Longrightarrow>
     scrape_loop ucd jl http (q # qs) =
       (case scrape_try jl http url of
          Inr (Some v) \<Rightarrow> ([HttpGet url], Some v)
        | _ \<Rightarrow> (HttpGet url # fst (scrape_loop ucd jl http qs),
                snd (scrape_loop ucd jl http qs)))"
  by (auto simp: Let_def split: sum.splits option.splits exn.splits prod.splits)

lemma scrape_loop_log_prefix:
  "prefix (fst (scrape_loop ucd jl http qs))
     (map HttpGet (request_urls (map (strip ucd) qs)))"
proof (induction qs)
  case Nil
  then show ?case by simp
next
  case (Cons q qs)
  show ?case
  proof (cases "strip ucd q = []")
    case True
    with Cons show ?thesis by (simp add: scrape_loop_skip del: scrape_loop.simps)
  next
    case False
    show ?thesis
    proof (cases "search_url (strip ucd q)")
      case (Inl e)
      with Cons False show ?thesis by (simp add: scrape_loop_no_url del: scrape_loop.simps)
    next
      case (Inr url)
      with Cons False show ?thesis
        by (auto simp: scrape_loop_step simp del: scrape_loop.simps
                 split: sum.splits option.splits)
    qed
  qed
qed

subsection \<open>Which requests a call makes\<close>

lemma api_loop_only_api_calls: "list_all is_api_call (fst (api_loop ucd api t a as qs))"
proof -
  have "set (fst (api_loop ucd api t a as qs)) \<subseteq> set (map ApiCall qs)"
    using api_loop_log_prefix [of ucd api t a as qs] by (rule set_mono_prefix)
  then show ?thesis by (auto simp: list_all_iff)
qed

lemma scrape_loop_only_http: "list_all is_http_get (fst (scrape_loop ucd jl http qs))"
proof -
  have "set (fst (scrape_loop ucd jl http qs))
      \<subseteq> set (map HttpGet (request_urls (map (strip ucd) qs)))"
    using scrape_loop_log_prefix [of ucd jl http qs] by (rule set_mono_prefix)
  then show ?thesis by (auto simp: list_all_iff)
qed

lemma search_with_api_only_api_calls:
  "list_all is_api_call (fst (search_with_api ucd api t as))"
  by (simp add: search_with_api_def Let_def api_loop_only_api_calls)

lemma search_with_scraping_only_http:
  "list_all is_http_get (fst (search_with_scraping ucd jl http t as))"
  by (simp add: search_with_scraping_def Let_def scrape_loop_only_http)

lemma init_client:
  "youtube_api (init env_key available build new_session) = Some client \<longleftrightarrow>
     (\<exists>k. env_key = Some k \<and> k \<noteq> [] \<and> available \<and> build k = Inr client)"
  by (auto simp: init_def Let_def split: option.splits sum.splits)

lemma only_api_calls_no_http: "list_all is_api_call log \<Longrightarrow> filter is_http_get log = []"
  by (induction log) (auto elim: is_api_call.elims)

lemma only_http_no_api_calls: "list_all is_http_get log \<Longrightarrow> filter is_api_call log = []"
  by (induction log) (auto elim: is_http_get.elims)


text \<open>
  \<^bold>\<open>C7.\<close> Every call of \<open>search_video_id\<close> runs exactly one strategy: with an API
  client configured the call is the API strategy and makes no HTTP request; without one
  the call is the scraping strategy and makes no API call. \<open>init\<close> configures a client
  exactly when the environment holds a non-empty key, the client library is available and
  building the client succeeds; so with no credential (the variable unset or empty) the
  API is called zero times.
\<close>

theorem one_strategy_per_call:
  "(case youtube_api self of
      Some api \<Rightarrow>
        search_video_id ucd json_loads self song_title artists
          = search_with_api ucd api song_title artists \<and>
        filter is_http_get (fst (search_video_id ucd json_loads self song_title artists)) = []
    | None \<Rightarrow>
        search_video_id ucd json_loads self song_title artists
          = search_with_scraping ucd json_loads (session self) song_title artists \<and>
        filter is_api_call (fst (search_video_id ucd json_loads self song_title artists)) = []) \<and>
   (youtube_api (init env_key available build new_session) = Some client) =
     (\<exists>k. env_key = Some k \<and> k \<noteq> [] \<and> available \<and> build k = Inr client) \<and>
   filter is_api_call
     (fst (search_video_id ucd json_loads (init None available build new_session)
        song_title artists)) = [] \<and>
   filter is_api_call
     (fst (search_video_id ucd json_loads (init (Some []) available build new_session)
        song_title artists)) = []"
proof -
  have none: "youtube_api self' = None \<Longrightarrow>
      filter is_api_call (fst (search_video_id ucd json_loads self' song_title artists)) = []"
    for self'
    by (simp add: search_video_id_def only_http_no_api_calls search_with_scraping_only_http)
  have i1: "youtube_api (init None available build new_session) = None"
    by (simp add: init_def)
  have i2: "youtube_api (init (Some []) available build new_session) = None"
    by (simp add: init_def)
  show ?thesis
    using none [OF i1] none [OF i2] init_client [of env_key available build new_session client]
    by (auto simp: search_video_id_def only_api_calls_no_http only_http_no_api_calls
          search_with_api_only_api_calls search_with_scraping_only_http split: option.splits)
qed

theorem one_strategy_per_call_witness:
  "search_video_id ascii_text no_json (api_service weeknd_api) (lit ''Blinding Lights'') [lit ''The Weeknd'']
     = search_with_api ascii_text weeknd_api (lit ''Blinding Lights'') [lit ''The Weeknd''] \<and>
   fst (search_video_id ascii_text no_json (api_service weeknd_api) (lit ''Blinding Lights'') [lit ''The Weeknd''])
     = [ApiCall (lit ''Blinding Lights The Weeknd official audio'')] \<and>
   filter is_http_get
     (fst (search_video_id ascii_text no_json (api_service weeknd_api) (lit ''Blinding Lights'')
        [lit ''The Weeknd''])) = [] \<and>
   youtube_api (scraping_service (http_double [])) = None \<and>
   length (fst (search_video_id ascii_text no_json (scraping_service (http_double []))
     (lit ''Blinding Lights'') [lit ''The Weeknd''])) = 4 \<and>
   filter is_api_call
     (fst (search_video_id ascii_text no_json (scraping_service (http_double []))
        (lit ''Blinding Lights'') [lit ''The Weeknd''])) = []"
proof -
  have c: "youtube_api (api_service weeknd_api) = Some weeknd_api"
    by (simp add: api_service_def init_def lit_def)
  have n: "youtube_api (scraping_service (http_double [])) = None"
    by (simp add: scraping_service_def init_def)
  have l1: "fst (search_video_id ascii_text no_json (api_service weeknd_api) (lit ''Blinding Lights'')
      [lit ''The Weeknd'']) = [ApiCall (lit ''Blinding Lights The Weeknd official audio'')]"
    by code_simp
  have l2: "length (fst (search_video_id ascii_text no_json (scraping_service (http_double []))
     (lit ''Blinding Lights'') [lit ''The Weeknd''])) = 4"
    by code_simp
  note api_case = one_strategy_per_call [where ucd = ascii_text and self = "api_service weeknd_api"
      and json_loads = no_json and song_title = "(lit ''Blinding Lights'')"
      and artists = "[lit ''The Weeknd'']", unfolded c option.case]
  note scraping_case = one_strategy_per_call [where ucd = ascii_text and self = "scraping_service (http_double [])"
      and json_loads = no_json and song_title = "(lit ''Blinding Lights'')"
      and artists = "[lit ''The Weeknd'']", unfolded n option.case]
  note a = api_case [THEN conjunct1]
  note b = scraping_case [THEN conjunct1]
  show ?thesis
    by (intro conjI) (rule a [THEN conjunct1] a [THEN conjunct2] b [THEN conjunct2] n l1 l2)+
qed

subsection \<open>No request for a blank title or an empty query\<close>

lemma utf8_not_Nil: "utf8 c = Inr bytes \<Longrightarrow> bytes \<noteq> []"
  by (auto simp: utf8_def split: if_splits)

lemma encode_utf8_Nil: "encode_utf8 s = Inr [] \<Longrightarrow> s = []"
  by (cases s) (auto simp: and_then_Inr dest: utf8_not_Nil)

lemma quote_byte_not_Nil: "quote_byte b \<noteq> []"
  by (simp add: quote_byte_def)

lemma quote_Nil: "quote s = Inr [] \<Longrightarrow> s = []"
proof -
  assume "quote s = Inr []"
  then obtain bytes where enc: "encode_utf8 s = Inr bytes"
    and "concat (map quote_byte bytes) = []"
    by (auto simp: quote_def and_then_Inr)
  then have "bytes = []" by (cases bytes) (simp_all add: quote_byte_not_Nil)
  with enc show "s = []" by (simp add: encode_utf8_Nil)
qed

lemma search_url_empty:
  "search_url q = Inr (lit ''https://www.youtube.com/results?search_query='') \<Longrightarrow> q = []"
  by (auto simp: search_url_def and_then_Inr dest: quote_Nil)

lemma request_urls_not_empty:
  "lit ''https://www.youtube.com/results?search_query='' \<notin> set (request_urls qs)"
  by (induction qs) (auto split: sum.splits dest: search_url_empty)

text \<open>
  \<^bold>\<open>C10.\<close> Without an API client, \<open>search_video_id\<close> on a title that is empty or
  consists of white space only returns none and makes no request at all. Inside the
  scraping loop a query variant that strips to the empty string is skipped: the loop
  behaves as if the variant were not in the list, and no request for an empty query ever
  appears in the log. White space is whatever \<^verbatim>\<open>str.strip()\<close> takes for it.
\<close>

theorem blank_title_makes_no_request:
  "(youtube_api self = None \<and> list_all (is_space ucd) song_title \<longrightarrow>
      search_video_id ucd json_loads self song_title artists = ([], None)) \<and>
   (strip ucd q = [] \<longrightarrow>
      scrape_loop ucd json_loads http (q # queries) = scrape_loop ucd json_loads http queries) \<and>
   HttpGet (lit ''https://www.youtube.com/results?search_query='')
     \<notin> set (fst (scrape_loop ucd json_loads http queries))"
proof -
  let ?empty = "lit ''https://www.youtube.com/results?search_query=''"
  have "HttpGet ?empty \<notin> set (fst (scrape_loop ucd json_loads http queries))"
  proof
    assume "HttpGet ?empty \<in> set (fst (scrape_loop ucd json_loads http queries))"
    with set_mono_prefix [OF scrape_loop_log_prefix [of ucd json_loads http queries]]
    have "HttpGet ?empty \<in> set (map HttpGet (request_urls (map (strip ucd) queries)))"
      by blast
    then have "?empty \<in> set (request_urls (map (strip ucd) queries))" by auto
    then show False by (simp add: request_urls_not_empty)
  qed
  moreover have "list_all (is_space ucd) song_title \<Longrightarrow> strip ucd song_title = []"
    by (simp add: strip_Nil_iff list_all_iff)
  ultimately show ?thesis
    by (simp add: search_video_id_def search_with_scraping_def scrape_loop_skip
             del: scrape_loop.simps)
qed

theorem blank_title_makes_no_request_witness:
  "youtube_api (scraping_service (http_double [])) = None \<and>
   list_all (is_space ascii_text) (lit ''   '') \<and>
   search_video_id ascii_text no_json (scraping_service (http_double [])) (lit ''   '')
       [lit ''The Weeknd'']
     = ([], None) \<and>
   list_all (is_space latin_text) [0xA0, 0x2003] \<and>
   search_video_id latin_text no_json (scraping_service (http_double [])) [0xA0, 0x2003]
       [lit ''The Weeknd'']
     = ([], None) \<and>
   strip ascii_text [0x09, 0x20] = [] \<and>
   scrape_loop ascii_text no_json (http_double []) [[0x09, 0x20], lit ''Blinding Lights'']
     = scrape_loop ascii_text no_json (http_double []) [lit ''Blinding Lights''] \<and>
   fst (scrape_loop ascii_text no_json (http_double []) [[0x09, 0x20], lit ''Blinding Lights''])
     = [HttpGet (lit ''https://www.youtube.com/results?search_query=Blinding%20Lights'')]"
proof -
  have n: "youtube_api (scraping_service (http_double [])) = None"
    by (simp add: scraping_service_def init_def)
  have s1: "list_all (is_space ascii_text) (lit ''   '')" by code_simp
  have s3: "list_all (is_space latin_text) [0xA0, 0x2003]" by code_simp
  have s2: "strip ascii_text [0x09, 0x20] = []" by code_simp
  have l: "fst (scrape_loop ascii_text no_json (http_double []) [lit ''Blinding Lights''])
     = [HttpGet (lit ''https://www.youtube.com/results?search_query=Blinding%20Lights'')]"
    by code_simp
  note t = blank_title_makes_no_request [where ucd = ascii_text
      and self = "scraping_service (http_double [])"
      and song_title = "lit ''   ''" and json_loads = no_json and artists = "[lit ''The Weeknd'']"
      and q = "[0x09, 0x20]" and http = "http_double []"
      and queries = "[lit ''Blinding Lights'']"]
  note t' = blank_title_makes_no_request [where ucd = latin_text
      and self = "scraping_service (http_double [])"
      and song_title = "[0xA0, 0x2003]" and json_loads = no_json
      and artists = "[lit ''The Weeknd'']"]
  from t n s1 have r1: "search_video_id ascii_text no_json (scraping_service (http_double []))
      (lit ''   '') [lit ''The Weeknd''] = ([], None)"
    by (simp only: simp_thms)
  from t' n s3 have r3: "search_video_id latin_text no_json (scraping_service (http_double []))
      [0xA0, 0x2003] [lit ''The Weeknd''] = ([], None)"
    by (simp only: simp_thms)
  from t s2 have r2: "scrape_loop ascii_text no_json (http_double [])
      [[0x09, 0x20], lit ''Blinding Lights'']
    = scrape_loop ascii_text no_json (http_double []) [lit ''Blinding Lights'']"
    by (simp only: simp_thms)
  show ?thesis
    by (intro conjI) (rule n s1 r1 s3 r3 s2 r2 l [folded r2])+
qed
subsection \<open>URL builders\<close>

lemma str_in_append: "str_in sub ys \<Longrightarrow> str_in sub (xs @ ys)"
  by (induction xs) simp_all

text \<open>
  \<^bold>\<open>C9.\<close> \<open>get_embed_url\<close> and \<open>get_watch_url\<close> depend on the video ID alone, not on
  the service they are called on: the same ID always gives the same string. For every ID
  the embed URL is built without an exception, is on the \<^verbatim>\<open>youtube-nocookie.com\<close> domain
  and carries the parameters \<^verbatim>\<open>autoplay=0\<close>, \<^verbatim>\<open>rel=0\<close> and \<^verbatim>\<open>controls=0\<close>.
\<close>

theorem url_builders_pure:
  "get_embed_url self video_id = get_embed_url self' video_id \<and>
   get_watch_url self video_id = get_watch_url self' video_id \<and>
   get_watch_url self video_id = lit ''https://www.youtube.com/watch?v='' @ video_id \<and>
   get_embed_url self video_id =
     Inr (lit ''https://www.youtube-nocookie.com/embed/'' @ video_id @
          lit ''?autoplay=0&enablejsapi=1&origin=http%3A//localhost%3A8000&rel=0&modestbranding=1&iv_load_policy=3&fs=0&playsinline=1&controls=0&disablekb=1&cc_load_policy=0&loop=0&mute=0&start=0'') \<and>
   (\<exists>url. get_embed_url self video_id = Inr url \<and>
      prefix (lit ''https://www.youtube-nocookie.com/embed/'') url \<and>
      str_in (lit ''autoplay=0'') url \<and>
      str_in (lit ''rel=0'') url \<and>
      str_in (lit ''controls=0'') url)"
proof -
  let ?tail = "lit ''?autoplay=0&enablejsapi=1&origin=http%3A//localhost%3A8000&rel=0&modestbranding=1&iv_load_policy=3&fs=0&playsinline=1&controls=0&disablekb=1&cc_load_policy=0&loop=0&mute=0&start=0''"
  let ?url = "lit ''https://www.youtube-nocookie.com/embed/'' @ (video_id @ ?tail)"
  have tail: "and_then embed_params (\<lambda>params. Inr (lit ''?'' @ join (lit ''&'') params))
      = Inr ?tail"
    by code_simp
  then obtain params where params: "embed_params = Inr params"
    and joined: "lit ''?'' @ join (lit ''&'') params = ?tail"
    by (auto simp: and_then_Inr)
  have shape: "get_embed_url s video_id = Inr ?url" for s
    by (simp add: get_embed_url_def params and_then_def joined [symmetric])
  have a: "str_in (lit ''autoplay=0'') ?tail" by code_simp
  have r: "str_in (lit ''rel=0'') ?tail" by code_simp
  have c: "str_in (lit ''controls=0'') ?tail" by code_simp
  have "str_in sub ?tail \<Longrightarrow> str_in sub ?url" for sub
    by (intro str_in_append)
  with a r c have "str_in (lit ''autoplay=0'') ?url" and "str_in (lit ''rel=0'') ?url"
    and "str_in (lit ''controls=0'') ?url" by blast+
  moreover have "prefix (lit ''https://www.youtube-nocookie.com/embed/'') ?url"
    by (rule prefixI) simp
  ultimately have "\<exists>url. get_embed_url self video_id = Inr url \<and>
      prefix (lit ''https://www.youtube-nocookie.com/embed/'') url \<and>
      str_in (lit ''autoplay=0'') url \<and> str_in (lit ''rel=0'') url \<and>
      str_in (lit ''controls=0'') url"
    using shape [of self] by blast
  moreover have "get_embed_url self video_id = get_embed_url self' video_id"
    by (simp add: shape)
  moreover have "get_watch_url self video_id = get_watch_url self' video_id"
    and "get_watch_url self video_id = lit ''https://www.youtube.com/watch?v='' @ video_id"
    by (simp_all add: get_watch_url_def)
  ultimately show ?thesis using shape [of self] by simp
qed

subsection \<open>What the JSON pass keeps\<close>

lemma valid_video_id_VStr: "valid_video_id (VStr s) = Inr (is_valid_video_id s)"
  by (simp add: valid_video_id_def and_then_def is_valid_video_id_def)

lemma first_valid_strings:
  "\<forall>v\<in>set vs. \<exists>s. v = VStr s \<Longrightarrow> first_valid vs = Inr (find format_valid vs)"
  by (induction vs) (auto simp: and_then_def format_valid_def valid_video_id_VStr)

lemma format_valid_string: "format_valid v \<Longrightarrow> \<exists>s. v = VStr s"
  using valid_video_id_True by (auto simp: format_valid_def)

lemma collect_all:
  "(\<And>x. \<forall>v\<in>set (fst (f x)). P v) \<Longrightarrow> \<forall>v\<in>set (fst (collect f xs)). P v"
proof (induction xs)
  case Nil
  then show ?case by simp
next
  case (Cons x xs)
  from Cons.prems [of x] Cons.IH [OF Cons.prems] show ?case
    by (auto split: prod.splits option.splits)
qed


lemma renderer_ids_valid: "\<forall>v\<in>set (fst (renderer_ids item)). format_valid v"
  by (auto simp: renderer_ids_def format_valid_def split: sum.splits if_splits)

lemma section_ids_valid: "\<forall>v\<in>set (fst (section_ids content)). format_valid v"
  unfolding section_ids_def
  by (cases "and_then (py_get content (lit ''itemSectionRenderer'') (VDict []))
        (\<lambda>item_section. and_then (py_get item_section (lit ''contents'') (VList [])) py_iter)")
     (use collect_all [of renderer_ids format_valid, OF renderer_ids_valid] in auto)

lemma initial_data_ids_valid: "\<forall>v\<in>set (fst (initial_data_ids data)). format_valid v"
  unfolding initial_data_ids_def
  by (use collect_all [of section_ids format_valid, OF section_ids_valid] in
        \<open>auto split: sum.splits\<close>)

lemma extract_video_ids_valid:
  "\<forall>v\<in>set (extract_video_ids_from_json jl body). format_valid v"
  using initial_data_ids_valid
  by (auto simp: extract_video_ids_from_json_def split: option.splits sum.splits)












subsection \<open>The scraping strategy against its specification\<close>

lemma scrape_response_kept:
  "scrape_response jl response =
     Inr (if status_code response = 200
          then kept_scraping_pass jl (response_text response) else None)"
proof -
  let ?ids = "extract_video_ids_from_json jl (response_text response)"
  let ?ws = "map VStr (findall_watch (response_text response))"
  have ws: "first_valid ?ws = Inr (find format_valid ?ws)"
    by (intro first_valid_strings) auto
  show ?thesis
  proof (cases ?ids)
    case Nil
    then show ?thesis
      by (simp add: scrape_response_def kept_scraping_pass_def and_then_def Let_def ws)
  next
    case (Cons v vs)
    with extract_video_ids_valid [of jl "response_text response"]
    have "valid_video_id v = Inr True" by (simp add: format_valid_def)
    with Cons show ?thesis
      by (simp add: scrape_response_def kept_scraping_pass_def and_then_def Let_def)
  qed
qed

lemma scrape_loop_kept:
  "snd (scrape_loop ucd jl http qs) =
     scraping_over (kept_scraping_pass jl) http (filter (\<lambda>q. q \<noteq> []) (map (strip ucd) qs))"
proof (induction qs)
  case Nil
  then show ?case by simp
next
  case (Cons q qs)
  show ?case
  proof (cases "strip ucd q = []")
    case True
    with Cons show ?thesis by (simp add: scrape_loop_skip del: scrape_loop.simps)
  next
    case False
    show ?thesis
    proof (cases "search_url (strip ucd q)")
      case (Inl e)
      with Cons False show ?thesis by (simp add: scrape_loop_no_url del: scrape_loop.simps)
    next
      case (Inr url)
      with Cons False show ?thesis
        by (cases "http url")
           (auto simp: scrape_loop_step scrape_try_def and_then_def scrape_response_kept
                 simp del: scrape_loop.simps split: option.splits)
    qed
  qed
qed





subsection \<open>Failures end in none\<close>

lemma api_loop_all_fail:
  "\<forall>q. \<exists>e. api q = Inl e \<Longrightarrow> snd (api_loop ucd api t a as qs) = None"
proof (induction qs)
  case Nil
  then show ?case by simp
next
  case (Cons q qs)
  from Cons.prems obtain e where "api q = Inl e" by blast
  then have "api_try ucd api t a as q = Inl e" by (rule api_try_raises)
  with Cons show ?case by (simp add: api_loop_step del: api_loop.simps)
qed

lemma scraping_over_all_fail:
  "\<forall>url. \<exists>e. http url = Inl e \<Longrightarrow> scraping_over pass http qs = None"
proof (induction qs)
  case Nil
  then show ?case by simp
next
  case (Cons q qs)
  show ?case
  proof (cases "search_url q")
    case (Inl e)
    with Cons show ?thesis by simp
  next
    case (Inr url)
    from Cons.prems obtain e where "http url = Inl e" by blast
    with Cons Inr show ?thesis by simp
  qed
qed

lemma extract_decoder_fails:
  "\<forall>s. \<exists>e. jl s = Inl e \<Longrightarrow> extract_video_ids_from_json jl body = []"
proof -
  assume fails: "\<forall>s. \<exists>e. jl s = Inl e"
  show ?thesis
  proof (cases "re_search_initial_data body")
    case None
    then show ?thesis by (simp add: extract_video_ids_from_json_def)
  next
    case (Some g)
    from fails obtain e where "jl g = Inl e" by blast
    with Some show ?thesis by (simp add: extract_video_ids_from_json_def)
  qed
qed

text \<open>
  \<^bold>\<open>C5.\<close> Whatever the title, the artists and the behaviour of the outside world (an
  API request may raise any \<open>HttpError\<close>, 403 included, or any other exception; an HTTP
  request may time out or raise; the JSON decoder may raise; a response may have any
  shape and hold invalid candidates), \<open>search_video_id\<close> hands the caller none or a valid
  video ID, never an exception. In particular a call all of whose API requests raise, a
  call all of whose HTTP requests raise and an extraction whose decoder raises end in none
  and in no IDs.
\<close>

theorem no_error_reaches_caller:
  "(snd (search_video_id ucd json_loads self song_title artists) = None \<or>
    (\<exists>s. snd (search_video_id ucd json_loads self song_title artists) = Some (VStr s) \<and>
         is_valid_video_id s)) \<and>
   ((\<forall>q. \<exists>e. api q = Inl e) \<longrightarrow> snd (search_with_api ucd api song_title artists) = None) \<and>
   ((\<forall>url. \<exists>e. http url = Inl e) \<longrightarrow>
      snd (search_with_scraping ucd json_loads http song_title artists) = None) \<and>
   ((\<forall>s. \<exists>e. json_loads s = Inl e) \<longrightarrow> extract_video_ids_from_json json_loads body = [])"
proof -
  have 1: "snd (search_video_id ucd json_loads self song_title artists) = None \<or>
    (\<exists>s. snd (search_video_id ucd json_loads self song_title artists) = Some (VStr s) \<and>
         is_valid_video_id s)"
  proof (cases "snd (search_video_id ucd json_loads self song_title artists)")
    case None
    then show ?thesis by simp
  next
    case (Some v)
    then have "valid_video_id v = Inr True" by (rule search_video_id_Some)
    then obtain s where "v = VStr s" and "is_valid_video_id s"
      using valid_video_id_True by blast
    with Some show ?thesis by simp
  qed
  have 2: "(\<forall>q. \<exists>e. api q = Inl e) \<longrightarrow> snd (search_with_api ucd api song_title artists) = None"
    by (simp add: search_with_api_def Let_def api_loop_all_fail)
  have 3: "(\<forall>url. \<exists>e. http url = Inl e) \<longrightarrow>
      snd (search_with_scraping ucd json_loads http song_title artists) = None"
    by (simp add: search_with_scraping_def Let_def scrape_loop_kept scraping_over_all_fail)
  have 4: "(\<forall>s. \<exists>e. json_loads s = Inl e) \<longrightarrow>
      extract_video_ids_from_json json_loads body = []"
    by (simp add: extract_decoder_fails)
  from 1 2 3 4 show ?thesis by (intro conjI)
qed

theorem no_error_reaches_caller_witness:
  "snd (search_video_id ascii_text no_json (api_service weeknd_api) (lit ''Blinding Lights'') [lit ''The Weeknd''])
     = Some (VStr (lit ''4NRXx6U8ABQ'')) \<and>
   is_valid_video_id (lit ''4NRXx6U8ABQ'') \<and>
   snd (search_with_api ascii_text quota_api (lit ''Blinding Lights'') [lit ''The Weeknd'']) = None \<and>
   snd (search_with_scraping ascii_text no_json timeout_session (lit ''Blinding Lights'') [lit ''The Weeknd''])
     = None \<and>
   fst (search_with_scraping ascii_text no_json timeout_session (lit ''Blinding Lights'') [lit ''The Weeknd''])
     = [HttpGet (lit ''https://www.youtube.com/results?search_query=Blinding%20Lights%20The%20Weeknd%20official%20audio''),
        HttpGet (lit ''https://www.youtube.com/results?search_query=Blinding%20Lights%20The%20Weeknd%20official''),
        HttpGet (lit ''https://www.youtube.com/results?search_query=Blinding%20Lights%20The%20Weeknd%20music''),
        HttpGet (lit ''https://www.youtube.com/results?search_query=Blinding%20Lights%20The%20Weeknd'')] \<and>
   extract_video_ids_from_json no_json (lit ''var ytInitialData = {rick};'') = []"
proof -
  note t = no_error_reaches_caller [where ucd = ascii_text and json_loads = no_json
      and self = "api_service weeknd_api" and song_title = "(lit ''Blinding Lights'')"
      and artists = "[lit ''The Weeknd'']" and api = quota_api and http = timeout_session
      and body = "(lit ''var ytInitialData = {rick};'')"]
  have run: "snd (search_video_id ascii_text no_json (api_service weeknd_api) (lit ''Blinding Lights'')
      [lit ''The Weeknd'']) = Some (VStr (lit ''4NRXx6U8ABQ''))"
    by code_simp
  from t [THEN conjunct1] have ok: "is_valid_video_id (lit ''4NRXx6U8ABQ'')"
    unfolding run by simp
  have api: "snd (search_with_api ascii_text quota_api (lit ''Blinding Lights'') [lit ''The Weeknd'']) = None"
    using t [THEN conjunct2, THEN conjunct1] by (simp add: quota_api_def)
  have http: "snd (search_with_scraping ascii_text no_json timeout_session (lit ''Blinding Lights'')
      [lit ''The Weeknd'']) = None"
    using t [THEN conjunct2, THEN conjunct2, THEN conjunct1] by (simp add: timeout_session_def)
  have dec: "extract_video_ids_from_json no_json (lit ''var ytInitialData = {rick};'') = []"
    using t [THEN conjunct2, THEN conjunct2, THEN conjunct2] by (simp add: no_json_def)
  have log: "fst (search_with_scraping ascii_text no_json timeout_session (lit ''Blinding Lights'')
      [lit ''The Weeknd''])
     = [HttpGet (lit ''https://www.youtube.com/results?search_query=Blinding%20Lights%20The%20Weeknd%20official%20audio''),
        HttpGet (lit ''https://www.youtube.com/results?search_query=Blinding%20Lights%20The%20Weeknd%20official''),
        HttpGet (lit ''https://www.youtube.com/results?search_query=Blinding%20Lights%20The%20Weeknd%20music''),
        HttpGet (lit ''https://www.youtube.com/results?search_query=Blinding%20Lights%20The%20Weeknd'')]"
    by code_simp
  show ?thesis
    by (intro conjI) (rule run ok api http log dec)+
qed

subsection \<open>The scan of one result list and the fallback to the first result\<close>

lemma api_loop_append:
  "\<forall>p\<in>set pre. continues (api_try ucd api t a as p) \<Longrightarrow>
     api_loop ucd api t a as (pre @ qs) =
       (map ApiCall pre @ fst (api_loop ucd api t a as qs), snd (api_loop ucd api t a as qs))"
  by (induction pre) (simp_all add: api_loop_step del: api_loop.simps)

lemma api_loop_stop:
  "\<forall>p\<in>set pre. continues (api_try ucd api t a as p) \<Longrightarrow>
     api_try ucd api t a as q = Inr (Some v) \<Longrightarrow>
     api_loop ucd api t a as (pre @ q # post) = (map ApiCall (pre @ [q]), Some v)"
  by (simp add: api_loop_append api_loop_step del: api_loop.simps)

lemma api_loop_exhausted:
  "\<forall>p\<in>set qs. continues (api_try ucd api t a as p) \<Longrightarrow>
     api_loop ucd api t a as qs = (map ApiCall qs, None)"
  using api_loop_append [of qs ucd api t a as "[]"] by simp

lemma has_items: "map_of kvs (lit ''items'') = Some x \<Longrightarrow> py_in (lit ''items'') (VDict kvs) = Inr True"
  by (auto dest!: map_of_SomeD intro: image_eqI [where x = "(lit ''items'', x)"])

lemma api_response_items:
  assumes "map_of kvs (lit ''items'') = Some (VList (item # items))"
  shows "api_response ucd t a as (VDict kvs) =
           (case api_items ucd t a as (item # items) of
              Inl e \<Rightarrow> Inl e
            | Inr (Some v) \<Rightarrow> Inr (Some v)
            | Inr None \<Rightarrow> first_result (VDict kvs))"
  using assms has_items [OF assms]
  by (simp add: api_response_def and_then_def del: api_items.simps py_in.simps
           split: sum.splits option.splits)

lemma item_fields_id:
  "item_fields ucd item = Inr (video_id, title, description) \<Longrightarrow>
     \<exists>idv. py_getitem item (lit ''id'') = Inr idv \<and> py_getitem idv (lit ''videoId'') = Inr video_id"
  by (auto simp: item_fields_def and_then_Inr)

lemma first_result_items:
  assumes "map_of kvs (lit ''items'') = Some (VList (item # items))"
    and "item_fields ucd item = Inr (video_id, title, description)"
  shows "first_result (VDict kvs) =
           and_then (valid_video_id video_id) (\<lambda>ok.
             if ok then Inr (Some video_id) else Inr None)"
  using assms(1) item_fields_id [OF assms(2)]
  by (auto simp: first_result_def and_then_def)

lemma api_item_passed_over:
  assumes "api_item ucd t a as item = Inr None"
    and "item_fields ucd item = Inr (video_id, title, description)"
  shows "\<exists>ok. valid_video_id video_id = Inr ok"
  using assms by (auto simp: api_item_def and_then_Inr)

text \<open>
  \<^bold>\<open>C2\<close>, as the code has it. The fallback to the first result sits inside the block of
  each query variant (\<^verbatim>\<open># If no perfect match, return first result\<close>), not after the
  loop over the variants. So when the scan of a variant's non-empty result list selects no
  candidate by rule (a) or (b), the strategy returns at once the ID of the first item of
  that list if that ID is format-valid, and no later variant is queried; if that ID is not
  format-valid, the strategy goes on with the next variant. The variants before it are
  those after which the loop continued. When the loop continues after every variant (no
  results, a first ID that is not valid, an error other than 403), all four variants are
  queried and the result is none: nothing is remembered from an earlier variant. The
  statement is about a first item whose title holds none of the filtered keywords.
\<close>

theorem first_result_fallback:
  "(api_queries song_title (artist_string artists) = preceding @ q # following \<and>
    (\<forall>p\<in>set preceding. continues (api_try ucd api song_title (artist_string artists) artists p)) \<and>
    api q = Inr (VDict kvs) \<and> map_of kvs (lit ''items'') = Some (VList (item # items)) \<and>
    api_items ucd song_title (artist_string artists) artists (item # items) = Inr None \<and>
    item_fields ucd item = Inr (video_id, title, description) \<and>
    \<not> filtered_title (lower ucd title)
    \<longrightarrow>
    search_with_api ucd api song_title artists =
      (if valid_video_id video_id = Inr True
       then (map ApiCall (preceding @ [q]), Some video_id)
       else (map ApiCall (preceding @ [q])
               @ fst (api_loop ucd api song_title (artist_string artists) artists following),
             snd (api_loop ucd api song_title (artist_string artists) artists following)))) \<and>
   ((\<forall>p\<in>set (api_queries song_title (artist_string artists)).
       continues (api_try ucd api song_title (artist_string artists) artists p))
    \<longrightarrow>
    search_with_api ucd api song_title artists =
      (map ApiCall (api_queries song_title (artist_string artists)), None))"
proof (intro conjI impI)
  let ?a = "artist_string artists"
  assume "api_queries song_title ?a = preceding @ q # following \<and>
    (\<forall>p\<in>set preceding. continues (api_try ucd api song_title ?a artists p)) \<and>
    api q = Inr (VDict kvs) \<and> map_of kvs (lit ''items'') = Some (VList (item # items)) \<and>
    api_items ucd song_title ?a artists (item # items) = Inr None \<and>
    item_fields ucd item = Inr (video_id, title, description) \<and>
    \<not> filtered_title (lower ucd title)"
  then have qs: "api_queries song_title ?a = preceding @ q # following"
    and pre: "\<forall>p\<in>set preceding. continues (api_try ucd api song_title ?a artists p)"
    and resp: "api q = Inr (VDict kvs)"
    and its: "map_of kvs (lit ''items'') = Some (VList (item # items))"
    and scan: "api_items ucd song_title ?a artists (item # items) = Inr None"
    and fields: "item_fields ucd item = Inr (video_id, title, description)"
    by blast+
  from scan have "api_item ucd song_title ?a artists item = Inr None"
    by (auto split: sum.splits option.splits)
  from api_item_passed_over [OF this fields]
  obtain ok where ok: "valid_video_id video_id = Inr ok" by blast
  have variant: "api_try ucd api song_title ?a artists q =
      (if ok then Inr (Some video_id) else Inr None)"
    using resp scan ok
    by (simp add: api_try_def and_then_def api_response_items [OF its]
          first_result_items [OF its fields] del: api_items.simps)
  show "search_with_api ucd api song_title artists =
      (if valid_video_id video_id = Inr True
       then (map ApiCall (preceding @ [q]), Some video_id)
       else (map ApiCall (preceding @ [q]) @ fst (api_loop ucd api song_title ?a artists following),
             snd (api_loop ucd api song_title ?a artists following)))"
  proof (cases ok)
    case True
    with variant pre ok show ?thesis
      by (simp add: search_with_api_def Let_def qs api_loop_stop del: api_loop.simps)
  next
    case False
    with variant have "continues (api_try ucd api song_title ?a artists q)" by simp
    with pre have "\<forall>p\<in>set (preceding @ [q]). continues (api_try ucd api song_title ?a artists p)"
      by simp
    from api_loop_append [OF this, of following] ok False show ?thesis
      by (simp add: search_with_api_def Let_def qs del: api_loop.simps)
  qed
next
  assume "\<forall>p\<in>set (api_queries song_title (artist_string artists)).
       continues (api_try ucd api song_title (artist_string artists) artists p)"
  then show "search_with_api ucd api song_title artists =
      (map ApiCall (api_queries song_title (artist_string artists)), None)"
    by (simp add: search_with_api_def Let_def api_loop_exhausted del: api_loop.simps)
qed

text \<open>
  The specification's reading of C2, that a variant without an (a)/(b) match falls through
  and that a first valid candidate is returned only after all four variants, fails twice.
  With the first variant finding only an unrelated video (no candidate selected), the call
  returns that video's ID after one request, although the second variant would have returned
  the official video. With the first variant finding a placeholder ID and then a valid,
  unrelated candidate, and the other variants finding nothing, the call returns none after
  four requests, not the valid candidate of the first variant.
\<close>

theorem fall_through_counterexample:
  "api_items ascii_text (lit ''Blinding Lights'') (lit ''The Weeknd'') [lit ''The Weeknd''] [cooking_item] = Inr None \<and>
   search_with_api ascii_text fallback_api (lit ''Blinding Lights'') [lit ''The Weeknd'']
     = ([ApiCall (lit ''Blinding Lights The Weeknd official audio'')], Some (VStr (lit ''cookingvid1''))) \<and>
   api_try ascii_text fallback_api (lit ''Blinding Lights'') (lit ''The Weeknd'') [lit ''The Weeknd'']
       (lit ''Blinding Lights The Weeknd official'')
     = Inr (Some (VStr (lit ''4NRXx6U8ABQ''))) \<and>
   api_items ascii_text (lit ''Blinding Lights'') (lit ''The Weeknd'') [lit ''The Weeknd'']
       [placeholder_item, cooking_item] = Inr None \<and>
   valid_video_id (VStr (lit ''cookingvid1'')) = Inr True \<and>
   search_with_api ascii_text placeholder_api (lit ''Blinding Lights'') [lit ''The Weeknd'']
     = ([ApiCall (lit ''Blinding Lights The Weeknd official audio''),
         ApiCall (lit ''Blinding Lights The Weeknd official''),
         ApiCall (lit ''Blinding Lights The Weeknd''),
         ApiCall (lit ''Blinding Lights The Weeknd music'')], None)"
  by code_simp

theorem first_result_fallback_witness:
  "api_queries (lit ''Blinding Lights'') (artist_string [lit ''The Weeknd''])
     = [lit ''Blinding Lights The Weeknd official audio'']
       @ (lit ''Blinding Lights The Weeknd official'')
       # [lit ''Blinding Lights The Weeknd'', lit ''Blinding Lights The Weeknd music''] \<and>
   continues (api_try ascii_text late_fallback_api (lit ''Blinding Lights'') (artist_string [lit ''The Weeknd''])
     [lit ''The Weeknd''] (lit ''Blinding Lights The Weeknd official audio'')) \<and>
   late_fallback_api (lit ''Blinding Lights The Weeknd official'')
     = Inr (VDict [(lit ''kind'', VStr (lit ''youtube#searchListResponse'')),
                   (lit ''items'', VList [cooking_item])]) \<and>
   api_items ascii_text (lit ''Blinding Lights'') (artist_string [lit ''The Weeknd'']) [lit ''The Weeknd'']
     [cooking_item] = Inr None \<and>
   item_fields ascii_text cooking_item = Inr (VStr (lit ''cookingvid1''), lit ''cooking pasta at home'', lit ''a recipe'') \<and>
   \<not> filtered_title (lower ascii_text (lit ''cooking pasta at home'')) \<and>
   valid_video_id (VStr (lit ''cookingvid1'')) = Inr True \<and>
   search_with_api ascii_text late_fallback_api (lit ''Blinding Lights'') [lit ''The Weeknd'']
     = ([ApiCall (lit ''Blinding Lights The Weeknd official audio''),
         ApiCall (lit ''Blinding Lights The Weeknd official'')], Some (VStr (lit ''cookingvid1''))) \<and>
   continues (api_try ascii_text (api_double []) (lit ''X'') (artist_string []) [] (lit ''X  official audio'')) \<and>
   continues (api_try ascii_text (api_double []) (lit ''X'') (artist_string []) [] (lit ''X  official'')) \<and>
   continues (api_try ascii_text (api_double []) (lit ''X'') (artist_string []) [] (lit ''X '')) \<and>
   continues (api_try ascii_text (api_double []) (lit ''X'') (artist_string []) [] (lit ''X  music'')) \<and>
   search_with_api ascii_text (api_double []) (lit ''X'') []
     = ([ApiCall (lit ''X  official audio''), ApiCall (lit ''X  official''), ApiCall (lit ''X ''),
         ApiCall (lit ''X  music'')], None)"
proof -
  let ?t = "(lit ''Blinding Lights'')" and ?as = "[lit ''The Weeknd'']"
  let ?kvs = "[(lit ''kind'', VStr (lit ''youtube#searchListResponse'')),
               (lit ''items'', VList [cooking_item])]"
  have qs: "api_queries ?t (artist_string ?as)
     = [lit ''Blinding Lights The Weeknd official audio'']
       @ (lit ''Blinding Lights The Weeknd official'')
       # [lit ''Blinding Lights The Weeknd'', lit ''Blinding Lights The Weeknd music'']"
    by code_simp
  have c1: "continues (api_try ascii_text late_fallback_api ?t (artist_string ?as) ?as
     (lit ''Blinding Lights The Weeknd official audio''))"
    by code_simp
  then have pre: "\<forall>p\<in>set [lit ''Blinding Lights The Weeknd official audio''].
      continues (api_try ascii_text late_fallback_api ?t (artist_string ?as) ?as p)"
    by simp
  have resp: "late_fallback_api (lit ''Blinding Lights The Weeknd official'') = Inr (VDict ?kvs)"
    by code_simp
  have its: "map_of ?kvs (lit ''items'') = Some (VList (cooking_item # []))"
    by (simp add: lit_def)
  have scan: "api_items ascii_text ?t (artist_string ?as) ?as (cooking_item # []) = Inr None"
    by code_simp
  have fields: "item_fields ascii_text cooking_item
      = Inr (VStr (lit ''cookingvid1''), lit ''cooking pasta at home'', lit ''a recipe'')"
    by code_simp
  have unfiltered: "\<not> filtered_title (lower ascii_text (lit ''cooking pasta at home''))"
    by code_simp
  have valid: "valid_video_id (VStr (lit ''cookingvid1'')) = Inr True"
    by code_simp
  note here = first_result_fallback [where ucd = ascii_text and song_title = ?t and artists = ?as
      and api = late_fallback_api, THEN conjunct1, THEN mp,
      OF conjI [OF qs conjI [OF pre conjI [OF resp conjI [OF its conjI [OF scan
           conjI [OF fields unfiltered]]]]]]]
  have run: "search_with_api ascii_text late_fallback_api ?t ?as
     = ([ApiCall (lit ''Blinding Lights The Weeknd official audio''),
         ApiCall (lit ''Blinding Lights The Weeknd official'')], Some (VStr (lit ''cookingvid1'')))"
    unfolding here by (simp add: valid)
  have x1: "continues (api_try ascii_text (api_double []) (lit ''X'') (artist_string []) [] (lit ''X  official audio''))"
    by code_simp
  have x2: "continues (api_try ascii_text (api_double []) (lit ''X'') (artist_string []) [] (lit ''X  official''))"
    by code_simp
  have x3: "continues (api_try ascii_text (api_double []) (lit ''X'') (artist_string []) [] (lit ''X ''))"
    by code_simp
  have x4: "continues (api_try ascii_text (api_double []) (lit ''X'') (artist_string []) [] (lit ''X  music''))"
    by code_simp
  have xq: "api_queries (lit ''X'') (artist_string [])
      = [lit ''X  official audio'', lit ''X  official'', lit ''X '', lit ''X  music'']"
    by code_simp
  from x1 x2 x3 x4 have all: "\<forall>p\<in>set (api_queries (lit ''X'') (artist_string [])).
      continues (api_try ascii_text (api_double []) (lit ''X'') (artist_string []) [] p)"
    unfolding xq by simp
  note none = first_result_fallback [where ucd = ascii_text and song_title = "lit ''X''" and artists = "[]"
      and api = "api_double []", THEN conjunct2, THEN mp, OF all]
  have exhausted: "search_with_api ascii_text (api_double []) (lit ''X'') []
     = ([ApiCall (lit ''X  official audio''), ApiCall (lit ''X  official''), ApiCall (lit ''X ''),
         ApiCall (lit ''X  music'')], None)"
    unfolding none xq by simp
  from scan have scan': "api_items ascii_text ?t (artist_string ?as) ?as [cooking_item] = Inr None" .
  show ?thesis
    by (intro conjI) (rule qs c1 resp scan' fields unfiltered valid run x1 x2 x3 x4 exhausted)+
qed

text \<open>
  \<^bold>\<open>C3.\<close> The source means to prefer the official upload (\<^verbatim>\<open># Prefer official audio/video\<close>,
  \<^verbatim>\<open># Return best match (official preferred, then good title/artist match)\<close>), but its
  scan returns at the first candidate of the list that rule (a) or rule (b) selects. For
  \<^verbatim>\<open>Blinding Lights\<close> by \<^verbatim>\<open>The Weeknd\<close>, with the first variant answered by a lyrics upload
  listed before the official audio, both candidates have a valid ID and an unfiltered
  title and satisfy the title match and the artist match; the lyrics upload is not
  official and the official audio is, and alone it would be returned; the call returns
  the ID of the lyrics upload.
\<close>

theorem lyrics_returned_before_official:
  "order_api (lit ''Blinding Lights The Weeknd official audio'')
     = Inr (search_response [lyrics_item, audio_item]) \<and>
   item_fields ascii_text lyrics_item
     = Inr (VStr (lit ''lyricsvid01''), lit ''the weeknd - blinding lights (lyrics)'',
            lit ''lyrics'') \<and>
   item_fields ascii_text audio_item
     = Inr (VStr (lit ''4NRXx6U8ABQ''), lit ''the weeknd - blinding lights (official audio)'',
            lit ''audio'') \<and>
   valid_video_id (VStr (lit ''lyricsvid01'')) = Inr True \<and>
   valid_video_id (VStr (lit ''4NRXx6U8ABQ'')) = Inr True \<and>
   filtered_title (lower ascii_text (lit ''the weeknd - blinding lights (lyrics)'')) = False \<and>
   filtered_title (lower ascii_text (lit ''the weeknd - blinding lights (official audio)''))
     = False \<and>
   is_official (lit ''the weeknd - blinding lights (lyrics)'') = False \<and>
   title_match ascii_text (lit ''Blinding Lights'')
     (lit ''the weeknd - blinding lights (lyrics)'') \<and>
   artist_match ascii_text (artist_string [lit ''The Weeknd'']) [lit ''The Weeknd'']
     (lit ''the weeknd - blinding lights (lyrics)'') (lit ''lyrics'') \<and>
   str_in (lit ''official audio'') (lit ''the weeknd - blinding lights (official audio)'') \<and>
   is_official (lit ''the weeknd - blinding lights (official audio)'') \<and>
   title_match ascii_text (lit ''Blinding Lights'')
     (lit ''the weeknd - blinding lights (official audio)'') \<and>
   artist_match ascii_text (artist_string [lit ''The Weeknd'']) [lit ''The Weeknd'']
     (lit ''the weeknd - blinding lights (official audio)'') (lit ''audio'') \<and>
   api_item ascii_text (lit ''Blinding Lights'') (artist_string [lit ''The Weeknd''])
     [lit ''The Weeknd''] audio_item = Inr (Some (VStr (lit ''4NRXx6U8ABQ''))) \<and>
   search_with_api ascii_text order_api (lit ''Blinding Lights'') [lit ''The Weeknd'']
     = ([ApiCall (lit ''Blinding Lights The Weeknd official audio'')],
        Some (VStr (lit ''lyricsvid01'')))"
  by code_simp

text \<open>
  \<^bold>\<open>C4.\<close> The specification says that the API strategy never returns a candidate whose
  title holds \<^verbatim>\<open>#shorts\<close>, \<^verbatim>\<open>playlist\<close>, \<^verbatim>\<open>mix\<close> or \<^verbatim>\<open>compilation\<close>, and the scan
  does skip such a candidate (\<^verbatim>\<open># Filter out non-music content\<close>). The fallback to the
  first result checks the format of the ID again but not the title. Here the only result
  for \<^verbatim>\<open>Song Title\<close> is titled \<^verbatim>\<open>Song Title #shorts\<close>: the title is filtered, the scan
  selects nothing, and the call returns the short's ID all the same.
\<close>


theorem shorts_returned_by_fallback:
  "item_fields ascii_text shorts_item
     = Inr (VStr (lit ''shortsvid01''), lit ''song title #shorts'', lit ''a short'') \<and>
   filtered_title (lower ascii_text (lit ''song title #shorts'')) \<and>
   api_items ascii_text (lit ''Song Title'') (artist_string []) [] [shorts_item] = Inr None \<and>
   shorts_api (lit ''Song Title  official audio'') = Inr (search_response [shorts_item]) \<and>
   search_with_api ascii_text shorts_api (lit ''Song Title'') []
     = ([ApiCall (lit ''Song Title  official audio'')], Some (VStr (lit ''shortsvid01'')))"
  by code_simp

subsection \<open>Case folding beyond ASCII\<close>

text \<open>The scan compares lower-cased strings, so its outcome depends on what
  \<^verbatim>\<open>str.lower()\<close> folds. Where the capital letter \<^verbatim>\<open>U+00C9\<close> is folded, the second result
  is selected by rule (b) for the title \<^verbatim>\<open>U+00C9\<close>\<^verbatim>\<open>cole\<close>; where only \<^verbatim>\<open>A\<close> to \<^verbatim>\<open>Z\<close>
  are folded no rule selects a result and the scan falls back to the first one.\<close>

lemma accented_title_selected:
  "lower latin_text (0xC9 # lit ''cole'') = 0xE9 # lit ''cole'' \<and>
   search_with_api latin_text ecole_api (0xC9 # lit ''cole'') []
     = ([ApiCall (0xC9 # lit ''cole  official audio'')], Some (VStr (lit ''ecolevid001''))) \<and>
   lower ascii_text (0xC9 # lit ''cole'') = 0xC9 # lit ''cole'' \<and>
   search_with_api ascii_text ecole_api (0xC9 # lit ''cole'') []
     = ([ApiCall (0xC9 # lit ''cole  official audio'')], Some (VStr (lit ''cookingvid1'')))"
  by code_simp

subsection \<open>The queries of one call are pairwise distinct\<close>

lemma api_queries_distinct: "distinct (api_queries song_title artist_str)"
  by (simp add: api_queries_def lit_def)

end
